theory Spec2Isabelle
  imports Complex_Main "HOL-Library.Monad_Syntax"
begin

section \<open>NumPy primitives used by the simulation\<close>

text \<open>
  NumPy float arrays are lists of reals (so no rounding, no infinities and no NaN); Python
  integers are \<open>int\<close>.  A computation
  that can raise (\<open>IndexError\<close> on an out-of-range read, \<open>ValueError\<close> on arrays whose
  shapes do not broadcast) returns an option: \<open>None\<close> stands for the raised exception,
  which none of the modelled functions catches except where a \<open>try\<close> is written out.
\<close>

definition py_get :: "'a list \<Rightarrow> int \<Rightarrow> 'a option" where
  \<comment> \<open>\<open>xs[i]\<close>: a negative index counts from the end, out of range raises\<close>
  "py_get xs i =
     (let n = int (length xs); j = (if i < 0 then n + i else i)
      in if 0 \<le> j \<and> j < n then Some (xs ! nat j) else None)"

fun cumsum_from :: "real \<Rightarrow> real list \<Rightarrow> real list" where
  "cumsum_from acc [] = []"
| "cumsum_from acc (x # xs) = (acc + x) # cumsum_from (acc + x) xs"

definition cumsum :: "real list \<Rightarrow> real list" where
  \<comment> \<open>\<open>np.cumsum\<close>\<close>
  "cumsum xs = cumsum_from 0 xs"

fun negate_even :: "real list \<Rightarrow> real list" where
  \<comment> \<open>\<open>a[::2] *= -1\<close>\<close>
  "negate_even [] = []"
| "negate_even [x] = [- x]"
| "negate_even (x # y # xs) = (- x) # y # negate_even xs"

fun np_diff :: "real list \<Rightarrow> real list" where
  \<comment> \<open>\<open>np.diff\<close>: \<open>out[i] = a[i+1] - a[i]\<close>\<close>
  "np_diff (x # y # xs) = (y - x) # np_diff (y # xs)"
| "np_diff _ = []"

definition average_distances :: "real list \<Rightarrow> real list" where
  \<comment> \<open>the midpoint boundaries: \<open>np.abs(np.diff(c) / 2)\<close> of the cumulative
      distances \<open>c\<close> with every even position negated\<close>
  "average_distances path_distances =
     map (\<lambda>d. \<bar>d / 2\<bar>) (np_diff (negate_even (cumsum path_distances)))"

section \<open>GIS: route indices closest to cumulative distances\<close>

text \<open>
  The loop of \<open>GIS.calculate_closest_gis_indices\<close>.  The boundary is read at the
  cursor before anything else, so an empty boundary array raises at the first distance.
  The loop runs over \<open>np.nditer(cumulative_distances)\<close>, which refuses an array without
  elements (\<open>ValueError\<close>): the empty case of \<open>gis_cursor_loop\<close> is the end of a
  non-empty iteration only.
\<close>

fun gis_cursor_loop :: "real list \<Rightarrow> int \<Rightarrow> real list \<Rightarrow> int list option" where
  "gis_cursor_loop avg current_coordinate_index [] = Some []"
| "gis_cursor_loop avg current_coordinate_index (distance # rest) =
     do {
       boundary \<leftarrow> py_get avg current_coordinate_index;
       let idx =
         (if distance > boundary then
            (if current_coordinate_index > int (length avg) - 1 then int (length avg) - 1
             else (let c = current_coordinate_index + 1
                   in if c > int (length avg) - 1 then int (length avg) - 1 else c))
          else current_coordinate_index);
       result \<leftarrow> gis_cursor_loop avg idx rest;
       Some (idx # result)
     }"

definition calculate_closest_gis_indices :: "real list \<Rightarrow> real list \<Rightarrow> int list option" where
  "calculate_closest_gis_indices path_distances cumulative_distances =
     (if cumulative_distances = [] then None
      else gis_cursor_loop (average_distances path_distances) 0 cumulative_distances)"

section \<open>Broadcasting and fancy indexing\<close>

definition broadcast2 :: "('a \<Rightarrow> 'b \<Rightarrow> 'c) \<Rightarrow> 'a list \<Rightarrow> 'b list \<Rightarrow> 'c list option" where
  \<comment> \<open>an elementwise binary operation on one-dimensional arrays: equal lengths pair up,
      a length-one array is stretched, anything else raises \<open>ValueError\<close>\<close>
  "broadcast2 f xs ys =
     (if length xs = length ys then Some (map2 f xs ys)
      else if length xs = 1 then Some (map (f (hd xs)) ys)
      else if length ys = 1 then Some (map (\<lambda>x. f x (hd ys)) xs)
      else None)"

definition take_indices :: "'a list \<Rightarrow> int list \<Rightarrow> 'a list option" where
  \<comment> \<open>\<open>xs[indices]\<close> with an integer index array\<close>
  "take_indices xs indices = those (map (py_get xs) indices)"

fun argmin_from :: "nat \<Rightarrow> real \<Rightarrow> nat \<Rightarrow> real list \<Rightarrow> nat" where
  "argmin_from best best_value i [] = best"
| "argmin_from best best_value i (x # xs) =
     (if x < best_value then argmin_from i x (Suc i) xs
      else argmin_from best best_value (Suc i) xs)"

definition argmin :: "real list \<Rightarrow> nat option" where
  \<comment> \<open>\<open>np.argmin\<close>: the first position of the least element; an empty array raises\<close>
  "argmin xs = (case xs of [] \<Rightarrow> None | x # rest \<Rightarrow> Some (argmin_from 0 x 1 rest))"

section \<open>WeatherForecasts\<close>

text \<open>
  One row of \<open>weather_forecast[coord][time]\<close>: the nine fields in the order of the class
  documentation.
\<close>

record forecast_row =
  latitude :: real
  longitude :: real
  dt :: real
  timezone_offset :: real
  dt_local :: real
  wind_speed :: real
  wind_direction :: real
  cloud_cover :: real
  description_id :: real

text \<open>
  The loop of \<open>WeatherForecasts.calculate_closest_weather_indices\<close>: here the cap on
  the cursor comes first, then the boundary is read.  It runs over
  \<open>np.nditer(cumulative_distances)\<close> as well, so an array without elements raises.
\<close>

fun weather_cursor_loop :: "real list \<Rightarrow> int \<Rightarrow> real list \<Rightarrow> int list option" where
  "weather_cursor_loop avg current_coordinate_index [] = Some []"
| "weather_cursor_loop avg current_coordinate_index (distance # rest) =
     do {
       let capped =
         (if current_coordinate_index > int (length avg) - 1 then int (length avg) - 1
          else current_coordinate_index);
       boundary \<leftarrow> py_get avg capped;
       let idx =
         (if distance > boundary then
            (let c = capped + 1 in if c > int (length avg) - 1 then int (length avg) - 1 else c)
          else capped);
       result \<leftarrow> weather_cursor_loop avg idx rest;
       Some (idx # result)
     }"

definition weather_coords :: "forecast_row list list \<Rightarrow> (real \<times> real) list option" where
  \<comment> \<open>\<open>self.weather_forecast[:, 0, 0:2]\<close>\<close>
  "weather_coords weather_forecast =
     those (map (\<lambda>rows. map_option (\<lambda>r. (latitude r, longitude r)) (py_get rows 0))
              weather_forecast)"

text \<open>
  \<open>helpers.calculate_path_distances\<close> is not part of the sources at hand; it is the
  parameter \<open>calculate_path_distances\<close>.
\<close>

definition calculate_closest_weather_indices ::
  "((real \<times> real) list \<Rightarrow> real list) \<Rightarrow> forecast_row list list \<Rightarrow> real list \<Rightarrow> int list option"
where
  "calculate_closest_weather_indices calculate_path_distances weather_forecast cumulative_distances =
     do {
       coords \<leftarrow> weather_coords weather_forecast;
       let weather_path_distances = calculate_path_distances coords;
       if cumulative_distances = [] then None
       else weather_cursor_loop (average_distances weather_path_distances) 0 cumulative_distances
     }"

definition get_weather_forecast_in_time ::
  "forecast_row list list \<Rightarrow> int list \<Rightarrow> real list \<Rightarrow> forecast_row list option"
where
  "get_weather_forecast_in_time weather_forecast indices unix_timestamps =
     do {
       full_weather_forecast_at_coords \<leftarrow> take_indices weather_forecast indices;
       first \<leftarrow> py_get full_weather_forecast_at_coords 0;
       let dt_local_array = map dt_local first;
       closest_time_stamp_indices \<leftarrow>
         those (map (\<lambda>unix_timestamp. argmin (map (\<lambda>d. \<bar>unix_timestamp - d\<bar>) dt_local_array))
                  unix_timestamps);
       let temp_0 = [0 ..< length full_weather_forecast_at_coords];
       pairs \<leftarrow> broadcast2 Pair temp_0 closest_time_stamp_indices;
       those (map (\<lambda>(q, t). do { rows \<leftarrow> py_get full_weather_forecast_at_coords (int q);
                                  py_get rows (int t) })
                pairs)
     }"

text \<open>
  Modelled from the spec: \<open>cloud_cover_to_ghi_linear\<close> is called by
  \<open>tests/test_weather_calculations.py\<close> but defined nowhere in the sources at hand.
  The spec gives its general form, \<open>ghi * (1 - 0.65 * cloud_cover/100)\<close>, elementwise.
\<close>

definition cloud_cover_to_ghi_linear :: "real list \<Rightarrow> real list \<Rightarrow> real list option" where
  "cloud_cover_to_ghi_linear cloud_cover_pct clear_sky_ghi =
     broadcast2 (\<lambda>c ghi. ghi * (1 - 0.65 * c / 100)) cloud_cover_pct clear_sky_ghi"

section \<open>BasicMotor\<close>

text \<open>
  The attributes of \<open>BasicMotor\<close> that the energy and power calculations read or
  assign; \<open>dc_v\<close> and \<open>dc_i\<close>, which they do not touch, are left out.
\<close>

record basic_motor =
  input_power :: real
  consumed_energy :: real
  vehicle_mass :: real
  acceleration_g :: real
  road_friction :: real
  tire_radius :: real
  air_density :: real
  vehicle_frontal_area :: real
  drag_coefficient :: real
  friction_force :: real
  e_mc :: real
  e_m :: real

definition BasicMotor :: basic_motor where
  \<comment> \<open>\<open>BasicMotor.__init__\<close>\<close>
  "BasicMotor =
     \<lparr> input_power = 0, consumed_energy = 0,
       vehicle_mass = 250, acceleration_g = 9.81, road_friction = 0.0055,
       tire_radius = 0.2032, air_density = 1.225, vehicle_frontal_area = 0.952,
       drag_coefficient = 0.223, friction_force = 250 * 9.81 * 0.0055,
       e_mc = 0.98, e_m = 0.9 \<rparr>"

definition calculate_power_in :: "basic_motor \<Rightarrow> real \<Rightarrow> real \<Rightarrow> real \<Rightarrow> basic_motor" where
  "calculate_power_in self required_speed_kmh gradient wind =
     (let required_speed_ms = required_speed_kmh / 3.6;
          required_angular_speed_rads = required_speed_ms / tire_radius self;
          drag_force = 0.5 * air_density self * ((required_speed_ms + wind) ^ 2)
                         * drag_coefficient self * vehicle_frontal_area self;
          g_force = vehicle_mass self * acceleration_g self * gradient;
          motor_output_power =
            required_angular_speed_rads * (friction_force self + drag_force + g_force);
          motor_input_power = motor_output_power / e_m self
      in self\<lparr>input_power := motor_input_power / e_mc self\<rparr>)"

definition update :: "basic_motor \<Rightarrow> real \<Rightarrow> basic_motor" where
  "update self tick_length = self\<lparr>consumed_energy := input_power self * tick_length\<rparr>"

text \<open>
  \<open>calculate_energy_in\<close> is vectorised; a scalar argument is a one-element array.
\<close>

definition calculate_energy_in ::
  "basic_motor \<Rightarrow> real list \<Rightarrow> real list \<Rightarrow> real list \<Rightarrow> real \<Rightarrow> real list option"
where
  "calculate_energy_in self required_speed_kmh gradients wind_speeds tick_length =
     do {
       let required_speed_ms = map (\<lambda>v. v / 3.6) required_speed_kmh;
       let required_angular_speed_rads = map (\<lambda>v. v / tire_radius self) required_speed_ms;
       required_angular_speed_rads_array \<leftarrow>
         broadcast2 (*) (replicate (length gradients) 1) required_angular_speed_rads;
       air_speeds \<leftarrow> broadcast2 (+) required_speed_ms wind_speeds;
       let drag_forces =
         map (\<lambda>a. 0.5 * air_density self * (a ^ 2) * drag_coefficient self
                     * vehicle_frontal_area self) air_speeds;
       let g_forces = map (\<lambda>g. vehicle_mass self * acceleration_g self * g) gradients;
       forces \<leftarrow> broadcast2 (+) (map (\<lambda>d. friction_force self + d) drag_forces) g_forces;
       powers \<leftarrow> broadcast2 (*) required_angular_speed_rads_array forces;
       let motor_output_energies = map (\<lambda>p. p * tick_length) powers;
       let motor_input_energies = map (\<lambda>e. e / e_m self) motor_output_energies;
       Some motor_input_energies
     }"

definition shaft_energy :: "basic_motor \<Rightarrow> real \<Rightarrow> real \<Rightarrow> real \<Rightarrow> real \<Rightarrow> real" where
  \<comment> \<open>the output shaft energy in the spec's words: angular wheel speed times the sum of
      rolling-resistance, drag and grade forces, times the tick length\<close>
  "shaft_energy self speed_kmh gradient wind tick_length =
     (speed_kmh / 3.6 / tire_radius self)
       * (friction_force self
          + 0.5 * air_density self * ((speed_kmh / 3.6 + wind) ^ 2)
              * drag_coefficient self * vehicle_frontal_area self
          + vehicle_mass self * acceleration_g self * gradient)
       * tick_length"

section \<open>Simulation\<close>

definition astype_int :: "real \<Rightarrow> int" where
  \<comment> \<open>\<open>.astype(int)\<close> and \<open>int(...)\<close>: truncation towards zero\<close>
  "astype_int x = (if 0 \<le> x then \<lfloor>x\<rfloor> else \<lceil>x\<rceil>)"

definition np_clip :: "real \<Rightarrow> real \<Rightarrow> real \<Rightarrow> real" where
  \<comment> \<open>\<open>a.clip(lo, hi)\<close> on one element: \<open>minimum(hi, maximum(a, lo))\<close>\<close>
  "np_clip lo hi a = min hi (max a lo)"

definition np_roll :: "'a list \<Rightarrow> int \<Rightarrow> 'a list" where
  \<comment> \<open>\<open>np.roll(xs, shift, 0)\<close>: element \<open>i\<close> moves to position \<open>(i + shift) mod n\<close>\<close>
  "np_roll xs shift =
     (if xs = [] then [] else rotate (nat ((- shift) mod int (length xs))) xs)"

fun first_index :: "('a \<Rightarrow> bool) \<Rightarrow> 'a list \<Rightarrow> nat option" where
  \<comment> \<open>\<open>np.where(cond)[0][0]\<close>, \<open>None\<close> where the source gets its \<open>IndexError\<close>\<close>
  "first_index P [] = None"
| "first_index P (x # xs) =
     (if P x then Some 0 else map_option Suc (first_index P xs))"

definition np_arange :: "real \<Rightarrow> real \<Rightarrow> real \<Rightarrow> real list option" where
  \<comment> \<open>\<open>np.arange(start, stop, step)\<close>: the \<open>\<lceil>(stop - start) / step\<rceil>\<close> values
      \<open>start + k * step\<close>; a zero step raises\<close>
  "np_arange start stop step =
     (if step = 0 then None
      else Some (map (\<lambda>k. start + real k * step) [0 ..< nat \<lceil>(stop - start) / step\<rceil>]))"

text \<open>
  Collaborators of \<open>Simulation\<close> that are not part of the sources at hand
  (\<open>simulation.common.helpers\<close>, \<open>SolarCalculations\<close>, \<open>BasicArray\<close>, \<open>BasicLVS\<close>,
  \<open>BasicBattery\<close>) are parameters.  The helpers and the methods that compute a value
  from their arguments are functions that may raise.  Two objects are written by a run,
  so their state is threaded through it, as a value of a type the model leaves open:
  \<^item> the LVS object, of state \<open>'lvs\<close>: \<open>lvs_update\<close> is \<open>basic_lvs.update(tick)\<close>,
    called for its effect on the object, and \<open>get_consumed_energy\<close> reads the object;
  \<^item> the battery object, of state \<open>'battery\<close>: \<open>update_array\<close> is
    \<open>basic_battery.update_array(...)\<close>, giving the state-of-charge series
    (\<open>battery_variables_array[0]\<close>) and the object after the call; the run then writes
    into that series in place, and \<open>soc_written\<close> is the battery object once the array
    it returned holds the written series (the object unchanged, unless it keeps the array).
\<close>

record ('lvs, 'battery) collaborators =
  calculate_path_distances :: "(real \<times> real) list \<Rightarrow> real list"
  adjust_timestamps_to_local_times :: "real list \<Rightarrow> real \<Rightarrow> real list \<Rightarrow> real list option"
  hour_from_unix_timestamp :: "real \<Rightarrow> int"
  get_array_directional_wind_speed ::
    "real list \<Rightarrow> real list \<Rightarrow> real list \<Rightarrow> real list option"
  calculate_array_GHI ::
    "(real \<times> real) list \<Rightarrow> real list \<Rightarrow> real list \<Rightarrow> real list \<Rightarrow> real list \<Rightarrow> real list option"
  calculate_produced_energy :: "real list \<Rightarrow> real \<Rightarrow> real list option"
  lvs_update :: "'lvs \<Rightarrow> real \<Rightarrow> 'lvs"
  get_consumed_energy :: "'lvs \<Rightarrow> real"
  update_array :: "'battery \<Rightarrow> real list \<Rightarrow> (real list \<times> 'battery) option"
  soc_written :: "'battery \<Rightarrow> real list \<Rightarrow> 'battery"
  reshape_and_repeat :: "real list \<Rightarrow> real \<Rightarrow> real list option"
  add_acceleration :: "real list \<Rightarrow> real \<Rightarrow> real list option"

text \<open>
  The \<open>Simulation\<close> object: what \<open>__init__\<close> sets up and a run only reads
  (\<open>timestamps\<close> is \<open>np.arange(0, simulation_duration + tick, tick)\<close> there), the LVS and
  battery objects, then the three attributes a run assigns (\<open>route_length\<close>,
  \<open>time_zones\<close>, \<open>local_times\<close>).
\<close>

record ('lvs, 'battery) simulation =
  tick :: real
  simulation_duration :: real
  start_hour :: int
  time_of_initialization :: real
  timestamps :: "real list"
  path_distances :: "real list"
  path_elevations :: "real list"
  path_gradients :: "real list"
  path_time_zones :: "real list"
  route_coords :: "(real \<times> real) list"
  vehicle_bearings :: "real list"
  weather_forecast :: "forecast_row list list"
  basic_motor :: basic_motor
  basic_lvs :: 'lvs
  basic_battery :: 'battery
  route_length :: real
  time_zones :: "real list"
  local_times :: "real list"

text \<open>
  \<open>SimulationResult\<close>; \<open>time_taken\<close> is the whole number of seconds that the source
  formats as a \<open>timedelta\<close> string.
\<close>

record simulation_result =
  arrays :: "real list list"
  distance_travelled :: real
  time_taken :: int
  final_soc :: real

definition simulation_hours_by_second :: "('lvs, 'battery) simulation \<Rightarrow> int list" where
  "simulation_hours_by_second self =
     (let simulation_hours =
            map (\<lambda>k. start_hour self + int k) [0 ..< nat \<lceil>simulation_duration self / (60 * 60)\<rceil>]
      in concat (map (replicate 3600) simulation_hours)
           @ [astype_int (real_of_int (start_hour self) + simulation_duration self / (60 * 60))])"

definition driving_allowed :: "int \<Rightarrow> bool" where
  \<comment> \<open>one element of \<open>not_charge\<close>\<close>
  "driving_allowed hour = (\<not> (hour mod 24 \<le> 8 \<or> hour mod 24 \<ge> 18))"

definition mask_times :: "bool list \<Rightarrow> real list \<Rightarrow> real list option" where
  \<comment> \<open>\<open>mask * values\<close> for a boolean array\<close>
  "mask_times flags values = broadcast2 (\<lambda>b v. of_bool b * v) flags values"

text \<open>
  \<open>Simulation.__run_simulation_calculations\<close> with \<open>verbose=False\<close> (what
  \<open>run_model\<close> passes unless asked otherwise; \<open>verbose\<close> adds plots only).  The two
  arrays computed for reference and never used (\<open>local_times_datetime\<close>,
  \<open>time_of_day_hour\<close>) are left out.  The body is cut in three at the source's own
  section comments:
  \<^item> \<open>weather_and_energy\<close>: from ``Expected distance estimate'' to the end of ``Energy
    calculations''; it yields \<open>max_route_distance\<close>, \<open>time_zones\<close>, \<open>local_times\<close>,
    \<open>delta_energy\<close>, \<open>solar_irradiances\<close>, \<open>wind_speeds\<close>,
    \<open>gis_route_elevations_at_each_tick\<close>, \<open>cloud_covers\<close> and the LVS object;
  \<^item> \<open>motion_and_distance\<close>: ``Array initialisation'' and ``Array calculations'' up to
    the cut of \<open>time_in_motion\<close>; it yields the final \<open>speed_kmh\<close>, \<open>distances\<close>,
    \<open>state_of_charge\<close>, \<open>final_soc\<close>, \<open>time_in_motion\<close>, \<open>max_dist_index\<close> and the
    battery object;
  \<^item> \<open>run_simulation_calculations_locals\<close>: the timing constraints before them, the
    result and the assignments to \<open>self\<close> after them.
  A run that raises is \<open>None\<close>: the model does not say which of its assignments to
  \<open>self\<close> had already happened.
\<close>

definition weather_and_energy ::
  "('lvs, 'battery) collaborators \<Rightarrow> ('lvs, 'battery) simulation \<Rightarrow> real list \<Rightarrow> bool list
     \<Rightarrow> (real \<times> real list \<times> real list \<times> real list \<times> real list \<times> real list
           \<times> real list \<times> real list \<times> 'lvs) option"
where
  "weather_and_energy c self speed_kmh not_charge =
     do {
       let tick_array = 0 # np_diff (timestamps self);
       metres \<leftarrow> broadcast2 (*) tick_array speed_kmh;
       let distances = map (\<lambda>d. d / 3.6) metres;
       let cumulative_distances = cumsum distances;
       closest_gis_indices \<leftarrow>
         calculate_closest_gis_indices (path_distances self) cumulative_distances;
       closest_weather_indices \<leftarrow>
         calculate_closest_weather_indices (calculate_path_distances c) (weather_forecast self)
           cumulative_distances;
       let cumulative_distances = cumsum (path_distances self);
       max_route_distance \<leftarrow> py_get cumulative_distances (- 1);
       gis_route_elevations_at_each_tick \<leftarrow> take_indices (path_elevations self) closest_gis_indices;
       gis_vehicle_bearings \<leftarrow> take_indices (vehicle_bearings self) closest_gis_indices;
       gradients \<leftarrow> take_indices (path_gradients self) closest_gis_indices;
       time_zones \<leftarrow> take_indices (path_time_zones self) closest_gis_indices;
       local_times \<leftarrow>
         adjust_timestamps_to_local_times c (timestamps self) (time_of_initialization self) time_zones;
       weather_forecasts \<leftarrow>
         get_weather_forecast_in_time (weather_forecast self) closest_weather_indices local_times;
       first_forecast \<leftarrow> py_get weather_forecasts 0;
       let roll_by_tick =
         3600 * (24 + start_hour self - hour_from_unix_timestamp c (dt first_forecast));
       let weather_forecasts = np_roll weather_forecasts (- roll_by_tick);
       let absolute_wind_speeds = map wind_speed weather_forecasts;
       let wind_directions = map wind_direction weather_forecasts;
       let cloud_covers = map cloud_cover weather_forecasts;
       let cloud_covers = map (\<lambda>_. 0) cloud_covers;
       wind_speeds \<leftarrow>
         get_array_directional_wind_speed c gis_vehicle_bearings absolute_wind_speeds wind_directions;
       coords_at_each_tick \<leftarrow> take_indices (route_coords self) closest_gis_indices;
       solar_irradiances \<leftarrow>
         calculate_array_GHI c coords_at_each_tick time_zones local_times
           gis_route_elevations_at_each_tick cloud_covers;
       let basic_lvs = lvs_update c (basic_lvs self) (tick self);
       let lvs_consumed_energy = get_consumed_energy c basic_lvs;
       motor_consumed_energy \<leftarrow>
         calculate_energy_in (basic_motor self) speed_kmh gradients wind_speeds (tick self);
       array_produced_energy \<leftarrow> calculate_produced_energy c solar_irradiances (tick self);
       drawing \<leftarrow> broadcast2 (\<lambda>e allowed. e \<noteq> 0 \<and> allowed) motor_consumed_energy not_charge;
       motor_consumed_energy \<leftarrow> mask_times drawing motor_consumed_energy;
       let consumed_energy = map (\<lambda>e. e + lvs_consumed_energy) motor_consumed_energy;
       let produced_energy = array_produced_energy;
       delta_energy \<leftarrow> broadcast2 (-) produced_energy consumed_energy;
       Some (max_route_distance, time_zones, local_times, delta_energy, solar_irradiances,
             wind_speeds, gis_route_elevations_at_each_tick, cloud_covers, basic_lvs)
     }"

definition snap_to_zero :: "real \<Rightarrow> real" where
  \<comment> \<open>one element of \<open>state_of_charge[np.abs(state_of_charge) < 1e-03] = 0\<close>\<close>
  "snap_to_zero soc = (if \<bar>soc\<bar> < 0.001 then 0 else soc)"

definition motion_and_distance ::
  "('lvs, 'battery) collaborators \<Rightarrow> ('lvs, 'battery) simulation \<Rightarrow> bool list \<Rightarrow> real list
     \<Rightarrow> real list \<Rightarrow> real
     \<Rightarrow> (real list \<times> real list \<times> real list \<times> real \<times> real list \<times> nat \<times> 'battery) option"
where
  "motion_and_distance c self not_charge speed_kmh delta_energy max_route_distance =
     do {
       tick_array \<leftarrow>
         (case timestamps self of [] \<Rightarrow> None
          | _ # later \<Rightarrow> Some (0 # map (\<lambda>_. tick self) later));
       let cumulative_delta_energy = cumsum delta_energy;
       (battery_soc, basic_battery) \<leftarrow> update_array c (basic_battery self) cumulative_delta_energy;
       let state_of_charge = map snap_to_zero battery_soc;
       let basic_battery = soc_written c basic_battery state_of_charge;
       moving \<leftarrow> broadcast2 (\<lambda>allowed soc. allowed \<and> soc \<noteq> 0) not_charge state_of_charge;
       speed_kmh \<leftarrow> mask_times moving speed_kmh;
       in_motion \<leftarrow> broadcast2 (\<lambda>t v. t \<noteq> 0 \<and> v \<noteq> 0) tick_array speed_kmh;
       let time_in_motion = map (\<lambda>b. of_bool b * tick self) in_motion;
       last_soc \<leftarrow> py_get state_of_charge (- 1);
       let final_soc = last_soc * 100 + 0;
       distance \<leftarrow> broadcast2 (\<lambda>v t. v * (t / 3600)) speed_kmh time_in_motion;
       let distances = cumsum distance;
       let distances = map (np_clip 0 (max_route_distance / 1000)) distances;
       let max_dist_index =
         (case first_index (\<lambda>d. d = max_route_distance / 1000) distances of
            Some k \<Rightarrow> k
          | None \<Rightarrow> length time_in_motion);
       let time_in_motion =
         take max_dist_index time_in_motion
           @ map (\<lambda>_. 0) (drop max_dist_index time_in_motion);
       Some (speed_kmh, distances, state_of_charge, final_soc, time_in_motion, max_dist_index,
             basic_battery)
     }"

text \<open>Local variables of a run that the result does not carry.\<close>

record run_locals =
  not_charge :: "bool list"
  time_in_motion :: "real list"
  max_route_distance :: real
  max_dist_index :: nat

definition run_simulation_calculations_locals ::
  "('lvs, 'battery) collaborators \<Rightarrow> ('lvs, 'battery) simulation \<Rightarrow> real list
     \<Rightarrow> (simulation_result \<times> ('lvs, 'battery) simulation \<times> run_locals) option"
where
  "run_simulation_calculations_locals c self speed_kmh_in =
     do {
       let not_charge = map driving_allowed (simulation_hours_by_second self);
       driving \<leftarrow> broadcast2 (\<lambda>v allowed. v \<noteq> 0 \<and> allowed) speed_kmh_in not_charge;
       speed_kmh \<leftarrow> mask_times driving speed_kmh_in;
       (max_route_distance, time_zones, local_times, delta_energy, solar_irradiances,
          wind_speeds, gis_route_elevations_at_each_tick, cloud_covers, basic_lvs) \<leftarrow>
         weather_and_energy c self speed_kmh not_charge;
       let self = self\<lparr>route_length := max_route_distance / 1000, basic_lvs := basic_lvs\<rparr>;
       (speed_kmh, distances, state_of_charge, final_soc, time_in_motion, max_dist_index,
          basic_battery) \<leftarrow>
         motion_and_distance c self not_charge speed_kmh delta_energy max_route_distance;
       let self = self\<lparr>basic_battery := basic_battery\<rparr>;
       let time_taken = astype_int (sum_list time_in_motion);
       distance_travelled \<leftarrow> py_get distances (- 1);
       let results =
         \<lparr> arrays = [speed_kmh, distances, state_of_charge, delta_energy, solar_irradiances,
                      wind_speeds, gis_route_elevations_at_each_tick, cloud_covers],
           distance_travelled = distance_travelled,
           time_taken = time_taken,
           final_soc = final_soc \<rparr>;
       let self = self\<lparr>time_zones := time_zones, local_times := local_times\<rparr>;
       Some (results, self,
             \<lparr> not_charge = not_charge, time_in_motion = time_in_motion,
               max_route_distance = max_route_distance, max_dist_index = max_dist_index \<rparr>)
     }"

definition run_simulation_calculations ::
  "('lvs, 'battery) collaborators \<Rightarrow> ('lvs, 'battery) simulation \<Rightarrow> real list
     \<Rightarrow> (simulation_result \<times> ('lvs, 'battery) simulation) option"
where
  "run_simulation_calculations c self speed_kmh =
     map_option (\<lambda>(results, self, locals). (results, self))
       (run_simulation_calculations_locals c self speed_kmh)"

text \<open>
  \<open>Simulation.run_model\<close>: speeds given by keyword (\<open>kwargs\<close>, here their values in
  order) replace the speed array; \<open>helpers.reshape_and_repeat\<close> stretches the profile over
  the duration, a zero is put in front, \<open>helpers.add_acceleration\<close> is applied, the run is
  made and its distance returned.  What \<open>run_model\<close> prints and plots is output only and
  is left out.
\<close>

definition run_model ::
  "('lvs, 'battery) collaborators \<Rightarrow> ('lvs, 'battery) simulation \<Rightarrow> real list \<Rightarrow> real list
     \<Rightarrow> (real \<times> ('lvs, 'battery) simulation) option"
where
  "run_model c self speed kwargs =
     do {
       let speed = (if kwargs \<noteq> [] then kwargs else speed);
       speed_kmh \<leftarrow> reshape_and_repeat c speed (simulation_duration self);
       let speed_kmh = 0 # speed_kmh;
       speed_kmh \<leftarrow> add_acceleration c speed_kmh 500;
       (result, self) \<leftarrow> run_simulation_calculations c self speed_kmh;
       Some (distance_travelled result, self)
     }"

text \<open>How \<open>run_model\<close> reads the arrays of a result.\<close>

definition speed_kmh_of :: "simulation_result \<Rightarrow> real list" where
  "speed_kmh_of result = arrays result ! 0"

definition distances_of :: "simulation_result \<Rightarrow> real list" where
  "distances_of result = arrays result ! 1"

definition state_of_charge_of :: "simulation_result \<Rightarrow> real list" where
  "state_of_charge_of result = arrays result ! 2"

section \<open>BasicBattery\<close>

text \<open>
  Modelled from the spec: \<open>BasicBattery.update_array\<close> is called by the simulation but
  defined nowhere in the sources at hand.  The spec (4.6) makes the state of charge a
  monotonic transform of the cumulative energy relative to the initial charge and the total
  capacity, clamped to \<open>[0, 1]\<close>, one value per input sample, and the function a pure one:
  the battery object is left as it is.
\<close>

definition BasicBattery_update_array ::
  "real \<Rightarrow> real \<Rightarrow> 'battery \<Rightarrow> real list \<Rightarrow> (real list \<times> 'battery) option"
where
  "BasicBattery_update_array initial_battery_charge max_energy_capacity battery
       cumulative_delta_energy =
     Some (map (\<lambda>e. np_clip 0 1
                  ((initial_battery_charge * max_energy_capacity + e) / max_energy_capacity))
             cumulative_delta_energy,
           battery)"

section \<open>BasicLVS\<close>

text \<open>
  Modelled from the spec: \<open>BasicLVS\<close> is constructed and called by the simulation but
  defined nowhere in the sources at hand.  The spec (4.5) makes the LVS drain a constant
  \<open>power_loss \<times> tick\<close> per step, independent of speed.  The state of the object is the
  energy of its last update, as for \<open>BasicMotor.update\<close>.
\<close>

definition BasicLVS_update :: "real \<Rightarrow> real \<Rightarrow> real \<Rightarrow> real" where
  "BasicLVS_update power_loss lvs tick_length = power_loss * tick_length"

definition BasicLVS_get_consumed_energy :: "real \<Rightarrow> real" where
  "BasicLVS_get_consumed_energy lvs = lvs"

section \<open>A concrete race\<close>

text \<open>
  Stand-ins for the collaborators and a small \<open>Simulation\<close> object, used to run the
  model on concrete inputs: a route of four coordinates ten metres apart, weather for
  three of its coordinates with a one-entry horizon, one-second ticks, an LVS without
  power loss, a battery that stays full and keeps no array (its state is the empty list).
\<close>

definition example_forecast_row :: "real \<Rightarrow> real \<Rightarrow> forecast_row" where
  "example_forecast_row lat lng =
     \<lparr> latitude = lat, longitude = lng, dt = 1627819200, timezone_offset = - 18000,
       dt_local = 1627819200 + - 18000, wind_speed = 3, wind_direction = 0, cloud_cover = 40,
       description_id = 800 \<rparr>"

definition example_forecast_at :: "real \<Rightarrow> real \<Rightarrow> real \<Rightarrow> forecast_row" where
  \<comment> \<open>a forecast entry for UNIX time \<open>time\<close> at a place \<open>offset\<close> seconds from UTC\<close>
  "example_forecast_at lat time offset =
     \<lparr> latitude = lat, longitude = - 100, dt = time, timezone_offset = offset,
       dt_local = time + offset, wind_speed = 3, wind_direction = 0, cloud_cover = 40,
       description_id = 800 \<rparr>"

definition example_collaborators :: "(real, real list) collaborators" where
  "example_collaborators =
     \<lparr> calculate_path_distances =
         (\<lambda>coords. map2 (\<lambda>a b. \<bar>fst b - fst a\<bar> * 100000) coords (tl coords)),
       adjust_timestamps_to_local_times =
         (\<lambda>times start zones. broadcast2 (\<lambda>t z. t + start + z) times zones),
       hour_from_unix_timestamp = (\<lambda>t. \<lfloor>t / 3600\<rfloor> mod 24),
       get_array_directional_wind_speed = (\<lambda>bearings speeds directions. Some (map (\<lambda>_. 0) speeds)),
       calculate_array_GHI = (\<lambda>coords zones times elevations clouds. Some (map (\<lambda>_. 1000) times)),
       calculate_produced_energy = (\<lambda>irradiances t. Some (map (\<lambda>g. g * t / 5) irradiances)),
       lvs_update = BasicLVS_update 0,
       get_consumed_energy = BasicLVS_get_consumed_energy,
       update_array = (\<lambda>battery cumulative. Some (map (\<lambda>_. 1) cumulative, battery)),
       soc_written = (\<lambda>battery state_of_charge. battery),
       reshape_and_repeat =
         (\<lambda>speed duration.
            if speed = [] then None
            else Some (concat (map (replicate (nat \<lfloor>duration\<rfloor> div length speed)) speed))),
       add_acceleration = (\<lambda>speed_kmh acceleration. Some speed_kmh) \<rparr>"

definition example_simulation :: "nat \<Rightarrow> int \<Rightarrow> (real, real list) simulation" where
  \<comment> \<open>\<open>hours\<close> whole hours from \<open>first_hour\<close> o'clock\<close>
  "example_simulation hours first_hour =
     \<lparr> tick = 1, simulation_duration = real (3600 * hours), start_hour = first_hour,
       time_of_initialization = 1627819200,
       timestamps = map real [0 ..< Suc (3600 * hours)],
       path_distances = [10, 10, 10],
       path_elevations = [300, 300, 300, 300],
       path_gradients = [0, 0, 0],
       path_time_zones = [- 18000, - 18000, - 18000, - 18000],
       route_coords = [(39.0918, - 94.4172), (39.0919, - 94.4172), (39.0920, - 94.4172),
                       (39.0921, - 94.4172)],
       vehicle_bearings = [0, 0, 0, 0],
       weather_forecast =
         [[example_forecast_row 39.0918 (- 94.4172)], [example_forecast_row 39.0919 (- 94.4172)],
          [example_forecast_row 39.0920 (- 94.4172)], [example_forecast_row 39.0921 (- 94.4172)]],
       basic_motor = BasicMotor, basic_lvs = 0, basic_battery = [],
       route_length = 0, time_zones = [], local_times = [0] \<rparr>"

text \<open>
  A second set of stand-ins, whose objects do change in a run: an LVS that draws 2 W, so
  that an update changes the energy it holds, and a battery that keeps the array it
  returns, so that what the run writes into that array is written into the battery.
\<close>

definition example_stateful_collaborators :: "(real, real list) collaborators" where
  "example_stateful_collaborators =
     example_collaborators
       \<lparr> lvs_update := BasicLVS_update 2,
         update_array :=
           (\<lambda>battery cumulative.
              let series = map (\<lambda>e. np_clip 0 1 ((900000 + e) / 1000000)) cumulative
              in Some (series, series)),
         soc_written := (\<lambda>battery state_of_charge. state_of_charge) \<rparr>"

section \<open>Properties of the primitives\<close>

lemma length_cumsum_from: "length (cumsum_from a xs) = length xs"
  by (induction xs arbitrary: a) simp_all

lemma length_cumsum: "length (cumsum xs) = length xs"
  by (simp add: cumsum_def length_cumsum_from)

lemma length_negate_even: "length (negate_even xs) = length xs"
  by (induction xs rule: negate_even.induct) simp_all

lemma length_np_diff: "length (np_diff xs) = length xs - 1"
  by (induction xs rule: np_diff.induct) simp_all

lemma length_average_distances:
  "length (average_distances pd) = length pd - 1"
  by (simp add: average_distances_def length_np_diff length_negate_even length_cumsum)

lemma py_get_in_range:
  "0 \<le> i \<Longrightarrow> i < int (length xs) \<Longrightarrow> py_get xs i = Some (xs ! nat i)"
  by (simp add: py_get_def Let_def)

lemma py_get_empty: "py_get [] i = None"
  by (simp add: py_get_def Let_def)

lemma first_index_Some_iff:
  "first_index P xs = Some k \<longleftrightarrow> k < length xs \<and> P (xs ! k) \<and> (\<forall>i<k. \<not> P (xs ! i))"
proof (induction xs arbitrary: k)
  case Nil
  then show ?case by simp
next
  case (Cons x xs)
  show ?case
  proof (cases "P x")
    case True
    then show ?thesis by (cases k) auto
  next
    case False
    show ?thesis
    proof (cases k)
      case 0
      with False show ?thesis by simp
    next
      case (Suc m)
      have "(\<forall>i<Suc m. \<not> P ((x # xs) ! i)) \<longleftrightarrow> (\<forall>i<m. \<not> P (xs ! i))"
        using False by (auto simp: less_Suc_eq_0_disj)
      with False Suc Cons.IH [of m] show ?thesis by auto
    qed
  qed
qed

lemma snap_to_zero_bounds:
  "0 \<le> x \<Longrightarrow> x \<le> 1 \<Longrightarrow> 0 \<le> snap_to_zero x \<and> snap_to_zero x \<le> 1"
  by (simp add: snap_to_zero_def)

lemma snap_to_zero_small: "\<bar>snap_to_zero x\<bar> < 0.001 \<Longrightarrow> snap_to_zero x = 0"
  by (simp add: snap_to_zero_def split: if_splits)

lemma np_clip_bounds: "lo \<le> hi \<Longrightarrow> lo \<le> np_clip lo hi a \<and> np_clip lo hi a \<le> hi"
  by (simp add: np_clip_def)

lemma np_clip_upper: "np_clip lo hi a \<le> hi"
  by (simp add: np_clip_def)

lemma py_get_mem: "py_get xs i = Some x \<Longrightarrow> x \<in> set xs"
  by (auto simp: py_get_def Let_def split: if_splits intro!: nth_mem)

lemma cumsum_from_eq_Nil: "cumsum_from a xs = [] \<longleftrightarrow> xs = []"
  by (cases xs) simp_all

lemma cumsum_from_last:
  "xs \<noteq> [] \<Longrightarrow> last (cumsum_from a xs) = a + sum_list xs"
proof (induction xs arbitrary: a)
  case Nil
  then show ?case by simp
next
  case (Cons x xs)
  show ?case
  proof (cases "xs = []")
    case True
    then show ?thesis by simp
  next
    case False
    with Cons.IH [of "a + x"] show ?thesis
      by (simp add: cumsum_from_eq_Nil add.assoc)
  qed
qed

lemma py_get_last: "xs \<noteq> [] \<Longrightarrow> py_get xs (- 1) = Some (last xs)"
  by (simp add: py_get_def Let_def last_conv_nth nat_diff_distrib')

lemma max_route_distance_sum:
  assumes "py_get (cumsum pd) (- 1) = Some m"
  shows "m = sum_list pd \<and> pd \<noteq> []"
proof -
  have ne: "pd \<noteq> []"
    using assms by (auto simp: cumsum_def py_get_empty)
  then have "cumsum pd \<noteq> []"
    by (cases pd) (simp_all add: cumsum_def)
  from py_get_last [OF this] assms have "m = last (cumsum pd)"
    by simp
  with ne show ?thesis
    by (simp add: cumsum_def cumsum_from_last)
qed

lemma frozen_tail:
  assumes "k \<le> j" "j < length tim0"
  shows "(take k tim0 @ map (\<lambda>_. 0::real) (drop k tim0)) ! j = 0"
  using assms by (simp add: nth_append)

lemma those_map_Some:
  "(\<And>x. x \<in> set xs \<Longrightarrow> f x = Some (g x)) \<Longrightarrow> those (map f xs) = Some (map g xs)"
  by (induction xs) simp_all

lemma take_indices_total:
  assumes "\<forall>i\<in>set idx. 0 \<le> i \<and> i < int (length xs)"
  shows "take_indices xs idx = Some (map (\<lambda>i. xs ! nat i) idx)"
  unfolding take_indices_def
  using assms by (intro those_map_Some) (simp add: py_get_in_range)

lemma argmin_from_bound:
  "best < i \<Longrightarrow> argmin_from best v i xs < i + length xs"
proof (induction xs arbitrary: best v i)
  case Nil
  then show ?case by simp
next
  case (Cons x xs)
  show ?case
  proof (cases "x < v")
    case True
    from Cons.IH [of i "Suc i" x] True show ?thesis by simp
  next
    case False
    from Cons.prems have "best < Suc i" by simp
    from Cons.IH [OF this, of v] False show ?thesis by simp
  qed
qed

lemma argmin_total:
  assumes "xs \<noteq> []"
  shows "\<exists>k. argmin xs = Some k \<and> k < length xs"
proof (cases xs)
  case Nil
  with assms show ?thesis by simp
next
  case (Cons x rest)
  from argmin_from_bound [of 0 1 x rest] have "argmin_from 0 x 1 rest < length xs"
    using Cons by simp
  with Cons show ?thesis
    by (simp add: argmin_def)
qed

lemma length_np_roll: "length (np_roll xs k) = length xs"
  by (simp add: np_roll_def)


lemma length_concat_replicate: "length (concat (map (replicate m) xs)) = m * length xs"
  by (induction xs) simp_all

lemma length_concat_replicate_map:
  "length (concat (map (replicate m \<circ> f) xs)) = m * length xs"
  using length_concat_replicate [of m "map f xs"] by simp



lemma np_arange_SomeD:
  assumes "np_arange start stop step = Some ts"
  shows "step \<noteq> 0" and "length ts = nat \<lceil>(stop - start) / step\<rceil>"
    and "i < length ts \<Longrightarrow> ts ! i = start + real i * step"
  using assms by (auto simp: np_arange_def split: if_splits)

section \<open>Properties of broadcasting\<close>

lemma broadcast2_elems:
  "broadcast2 f xs ys = Some zs \<Longrightarrow> z \<in> set zs \<Longrightarrow> \<exists>x\<in>set xs. \<exists>y\<in>set ys. z = f x y"
proof -
  assume b: "broadcast2 f xs ys = Some zs" and z: "z \<in> set zs"
  consider (eq) "length xs = length ys" | (l) "length xs \<noteq> length ys" "length xs = 1"
    | (r) "length xs \<noteq> length ys" "length xs \<noteq> 1" "length ys = 1"
    | (bad) "length xs \<noteq> length ys" "length xs \<noteq> 1" "length ys \<noteq> 1"
    by blast
  then show ?thesis
  proof cases
    case eq
    with b have "zs = map2 f xs ys" by (simp add: broadcast2_def)
    with z obtain p where "p \<in> set (zip xs ys)" "z = f (fst p) (snd p)"
      by (auto simp: case_prod_beta)
    then show ?thesis
      by (metis prod.collapse set_zip_leftD set_zip_rightD)
  next
    case l
    with b have zs: "zs = map (f (hd xs)) ys" by (simp add: broadcast2_def)
    from l(2) have "hd xs \<in> set xs" by (cases xs) simp_all
    with z zs show ?thesis by auto
  next
    case r
    with b have zs: "zs = map (\<lambda>x. f x (hd ys)) xs" by (simp add: broadcast2_def)
    from r(3) have "hd ys \<in> set ys" by (cases ys) simp_all
    with z zs show ?thesis by auto
  next
    case bad
    with b show ?thesis by (simp add: broadcast2_def)
  qed
qed

lemma broadcast2_same_length:
  "length xs = length ys \<Longrightarrow> broadcast2 f xs ys = Some (map2 f xs ys)"
  by (simp add: broadcast2_def)

lemma broadcast2_total:
  "length xs = length ys \<Longrightarrow> \<exists>zs. broadcast2 f xs ys = Some zs \<and> length zs = length ys"
  by (simp add: broadcast2_def)

lemma broadcast2_replicate:
  "broadcast2 f (replicate n x) (replicate n y) = Some (replicate n (f x y))"
  by (simp add: broadcast2_def zip_replicate)

lemma broadcast2_shape:
  assumes "broadcast2 f xs ys = Some zs"
  shows "(length xs = length zs \<or> length xs = 1) \<and> (length ys = length zs \<or> length ys = 1)"
  using assms by (auto simp: broadcast2_def split: if_splits)

lemma broadcast2_nth:
  assumes "broadcast2 f xs ys = Some zs" and "i < length zs"
  shows "zs ! i = f (xs ! (if length xs = length zs then i else 0))
                    (ys ! (if length ys = length zs then i else 0))"
proof -
  consider (eq) "length xs = length ys"
    | (l) "length xs \<noteq> length ys" "length xs = 1"
    | (r) "length xs \<noteq> length ys" "length xs \<noteq> 1" "length ys = 1"
    | (bad) "length xs \<noteq> length ys" "length xs \<noteq> 1" "length ys \<noteq> 1"
    by blast
  then show ?thesis
  proof cases
    case eq
    with assms(1) have zs: "zs = map2 f xs ys" by (simp add: broadcast2_def)
    then have len: "length zs = length xs" "length zs = length ys"
      using eq by simp_all
    from assms(2) len have "zs ! i = f (xs ! i) (ys ! i)"
      unfolding zs by simp
    then show ?thesis
      using len by simp
  next
    case l
    with assms have zs: "zs = map (f (hd xs)) ys" by (simp add: broadcast2_def)
    from l(2) have "hd xs = xs ! 0" by (cases xs) simp_all
    with zs assms(2) l show ?thesis by auto
  next
    case r
    with assms have zs: "zs = map (\<lambda>x. f x (hd ys)) xs" by (simp add: broadcast2_def)
    from r(3) have "hd ys = ys ! 0" by (cases ys) simp_all
    with zs assms(2) r show ?thesis by auto
  next
    case bad
    with assms show ?thesis by (simp add: broadcast2_def)
  qed
qed

lemma broadcast2_nth_left:
  assumes "broadcast2 f xs ys = Some zs" and "i < length zs" and "i < length xs"
  shows "\<exists>y. zs ! i = f (xs ! i) y"
proof -
  from broadcast2_shape [OF assms(1)] assms(3)
  have "xs ! (if length xs = length zs then i else 0) = xs ! i"
    by auto
  with broadcast2_nth [OF assms(1,2)] show ?thesis
    by metis
qed

lemma broadcast2_nth_right:
  assumes "broadcast2 f xs ys = Some zs" and "i < length zs" and "i < length ys"
  shows "\<exists>x. zs ! i = f x (ys ! i)"
proof -
  from broadcast2_shape [OF assms(1)] assms(3)
  have "ys ! (if length ys = length zs then i else 0) = ys ! i"
    by auto
  with broadcast2_nth [OF assms(1,2)] show ?thesis
    by metis
qed

section \<open>The route cursor is monotone and bounded\<close>

lemma gis_cursor_loop_props:
  "0 \<le> cur \<Longrightarrow> cur < int (length avg) \<Longrightarrow>
   \<exists>res. gis_cursor_loop avg cur ds = Some res \<and> length res = length ds \<and> sorted res
     \<and> (\<forall>i\<in>set res. cur \<le> i \<and> i < int (length avg))"
proof (induction ds arbitrary: cur)
  case Nil
  then show ?case by simp
next
  case (Cons d ds)
  define b where "b = avg ! nat cur"
  define idx where "idx = (if d > b then
            (if cur > int (length avg) - 1 then int (length avg) - 1
             else (let c = cur + 1
                   in if c > int (length avg) - 1 then int (length avg) - 1 else c))
          else cur)"
  have get: "py_get avg cur = Some b"
    using Cons.prems by (simp add: py_get_in_range b_def)
  have idx_bounds: "cur \<le> idx" "idx < int (length avg)" "0 \<le> idx"
    using Cons.prems by (auto simp: idx_def Let_def)
  from Cons.IH [OF idx_bounds(3) idx_bounds(2)]
  obtain r where r: "gis_cursor_loop avg idx ds = Some r" "length r = length ds" "sorted r"
    "\<forall>i\<in>set r. idx \<le> i \<and> i < int (length avg)"
    by blast
  have "gis_cursor_loop avg cur (d # ds) = Some (idx # r)"
    using get r(1) by (simp add: idx_def)
  moreover have "sorted (idx # r)"
    using r(3,4) by simp
  moreover have "\<forall>i\<in>set (idx # r). cur \<le> i \<and> i < int (length avg)"
    using r(4) idx_bounds by auto
  ultimately show ?case
    using r(2) by simp
qed

lemma closest_gis_indices_empty: "calculate_closest_gis_indices route_distances [] = None"
  by (simp add: calculate_closest_gis_indices_def)

text \<open>
  C1.  For a non-decreasing sequence of cumulative distances and a route of \<open>N\<close>
  coordinates (\<open>N - 1\<close> segment distances), \<open>calculate_closest_gis_indices\<close> returns
  whenever the route has at least three coordinates and there is at least one distance
  (without a distance the iterator raises, with fewer coordinates the first boundary read
  does), and whatever it returns has one index per distance, is non-decreasing, and lies
  in \<open>[0, N - 2]\<close> (indeed below the number \<open>N - 2\<close> of midpoint boundaries); a cursor
  that has reached the last boundary index stays there.
\<close>

theorem closest_gis_indices_monotone_bounded:
  assumes "sorted cumulative_distances"
  shows "(3 \<le> length route_distances + 1 \<and> cumulative_distances \<noteq> [] \<longrightarrow>
            (\<exists>res. calculate_closest_gis_indices route_distances cumulative_distances = Some res))
       \<and> (\<forall>res. calculate_closest_gis_indices route_distances cumulative_distances = Some res \<longrightarrow>
            length res = length cumulative_distances
          \<and> sorted res
          \<and> (\<forall>i\<in>set res. 0 \<le> i \<and> i \<le> int (length route_distances + 1) - 2
                \<and> i < int (length (average_distances route_distances)))
          \<and> (\<forall>j k. j \<le> k \<and> k < length res
                \<and> res ! j = int (length (average_distances route_distances)) - 1
                \<longrightarrow> res ! k = res ! j))"
proof (cases "length route_distances < 2 \<or> cumulative_distances = []")
  case True
  have "calculate_closest_gis_indices route_distances cumulative_distances = None"
  proof (cases cumulative_distances)
    case Nil
    then show ?thesis
      by (simp add: calculate_closest_gis_indices_def)
  next
    case (Cons d ds)
    with True have "average_distances route_distances = []"
      using length_average_distances [of route_distances] by simp
    with Cons show ?thesis
      by (simp add: calculate_closest_gis_indices_def py_get_empty)
  qed
  with True show ?thesis
    by auto
next
  case False
  then have len: "0 < int (length (average_distances route_distances))"
    "int (length (average_distances route_distances)) = int (length route_distances) - 1"
    using length_average_distances [of route_distances] by simp_all
  from gis_cursor_loop_props [of 0 "average_distances route_distances" cumulative_distances] len(1)
  obtain r where r: "calculate_closest_gis_indices route_distances cumulative_distances = Some r"
    "length r = length cumulative_distances" "sorted r"
    "\<forall>i\<in>set r. 0 \<le> i \<and> i < int (length (average_distances route_distances))"
    unfolding calculate_closest_gis_indices_def using False by auto
  have sat: "r ! k = r ! j"
    if "j \<le> k" "k < length r" "r ! j = int (length (average_distances route_distances)) - 1"
    for j k
  proof -
    have "r ! j \<le> r ! k"
      using r(3) that(1,2) by (simp add: sorted_nth_mono)
    moreover have "r ! k < int (length (average_distances route_distances))"
      using r(4) that(2) by (simp add: nth_mem)
    ultimately show ?thesis
      using that(3) by simp
  qed
  show ?thesis
    using r len(2) sat by auto
qed

theorem closest_gis_indices_monotone_bounded_witness:
  "sorted [0, 160, 300, 400 :: real]
   \<and> calculate_closest_gis_indices [100, 100, 100] [0, 160, 300, 400] = Some [0, 1, 1, 1]
   \<and> sorted [0, 1, 1, 1 :: int]
   \<and> list_all (\<lambda>i. 0 \<le> i \<and> i \<le> int (length [100, 100, 100 :: real] + 1) - 2) [0, 1, 1, 1]"
proof -
  have s: "sorted [0, 160, 300, 400 :: real]"
    by simp
  have run: "calculate_closest_gis_indices [100, 100, 100] [0, 160, 300, 400] = Some [0, 1, 1, 1]"
    by (simp add: calculate_closest_gis_indices_def average_distances_def cumsum_def py_get_def)
  from closest_gis_indices_monotone_bounded [OF s, of "[100, 100, 100]"] run
  have "sorted [0, 1, 1, 1 :: int]
      \<and> (\<forall>i\<in>set [0, 1, 1, 1 :: int]. 0 \<le> i \<and> i \<le> int (length [100, 100, 100 :: real] + 1) - 2)"
    by simp
  with s run show ?thesis
    by (simp add: list_all_iff)
qed

section \<open>The weather cursor advances by at most one\<close>

lemma weather_cursor_loop_props:
  "0 \<le> cur \<Longrightarrow> cur < int (length avg) \<Longrightarrow>
   \<exists>res. weather_cursor_loop avg cur ds = Some res \<and> length res = length ds
     \<and> (\<forall>k. k < length res \<longrightarrow>
            (if k = 0 then cur else res ! (k - 1)) \<le> res ! k
          \<and> res ! k \<le> (if k = 0 then cur else res ! (k - 1)) + 1)
     \<and> (\<forall>i\<in>set res. 0 \<le> i \<and> i < int (length avg))"
proof (induction ds arbitrary: cur)
  case Nil
  then show ?case by simp
next
  case (Cons d ds)
  define b where "b = avg ! nat cur"
  define idx where "idx = (if d > b then
            (let c = cur + 1 in if c > int (length avg) - 1 then int (length avg) - 1 else c)
          else cur)"
  have capped: "(if cur > int (length avg) - 1 then int (length avg) - 1 else cur) = cur"
    using Cons.prems by simp
  have get: "py_get avg cur = Some b"
    using Cons.prems by (simp add: py_get_in_range b_def)
  have idx_bounds: "cur \<le> idx" "idx \<le> cur + 1" "idx < int (length avg)" "0 \<le> idx"
    using Cons.prems by (auto simp: idx_def Let_def)
  from Cons.IH [OF idx_bounds(4) idx_bounds(3)]
  obtain r where r: "weather_cursor_loop avg idx ds = Some r" "length r = length ds"
    "\<forall>k. k < length r \<longrightarrow>
            (if k = 0 then idx else r ! (k - 1)) \<le> r ! k
          \<and> r ! k \<le> (if k = 0 then idx else r ! (k - 1)) + 1"
    "\<forall>i\<in>set r. 0 \<le> i \<and> i < int (length avg)"
    by blast
  have run: "weather_cursor_loop avg cur (d # ds) = Some (idx # r)"
    using get r(1) by (simp add: capped idx_def)
  have steps: "(if k = 0 then cur else (idx # r) ! (k - 1)) \<le> (idx # r) ! k
          \<and> (idx # r) ! k \<le> (if k = 0 then cur else (idx # r) ! (k - 1)) + 1"
    if "k < length (idx # r)" for k
  proof (cases k)
    case 0
    then show ?thesis using idx_bounds by simp
  next
    case (Suc m)
    then have "m < length r" using that by simp
    with r(3) have "(if m = 0 then idx else r ! (m - 1)) \<le> r ! m
          \<and> r ! m \<le> (if m = 0 then idx else r ! (m - 1)) + 1"
      by blast
    then show ?thesis
      using Suc by (cases m) simp_all
  qed
  have "\<forall>i\<in>set (idx # r). 0 \<le> i \<and> i < int (length avg)"
    using r(4) idx_bounds by simp
  with run steps r(2) show ?case
    by (intro exI [of _ "idx # r"]) simp
qed

lemma closest_weather_indices_empty:
  "calculate_closest_weather_indices path_distances_of forecasts [] = None"
  by (cases "weather_coords forecasts") (simp_all add: calculate_closest_weather_indices_def)

text \<open>
  C10.  For every array of cumulative distances, monotone or not,
  \<open>calculate_closest_weather_indices\<close> returns whenever every weather coordinate has a
  forecast entry, there are at least two midpoint boundaries' worth of coordinates
  (three path distances' ends) and the array has at least one distance (without one the
  iterator raises); whatever it returns has one index per distance, never
  decreases, goes up by at most one from one query to the next (the first from the
  starting cursor \<open>0\<close>), however far a distance jumps, and never exceeds the last index of
  the midpoint-boundary array.
\<close>

theorem closest_weather_indices_bounded_steps:
  "(\<forall>coords. weather_coords forecasts = Some coords
        \<and> 3 \<le> length (path_distances_of coords) + 1
        \<and> cumulative_distances \<noteq> []
      \<longrightarrow> (\<exists>res. calculate_closest_weather_indices path_distances_of forecasts
                      cumulative_distances = Some res))
   \<and> (\<forall>res. calculate_closest_weather_indices path_distances_of forecasts cumulative_distances
              = Some res
      \<longrightarrow> (\<exists>coords. weather_coords forecasts = Some coords
            \<and> length res = length cumulative_distances
            \<and> (\<forall>k. k < length res \<longrightarrow>
                   (if k = 0 then 0 else res ! (k - 1)) \<le> res ! k
                 \<and> res ! k \<le> (if k = 0 then 0 else res ! (k - 1)) + 1)
            \<and> (\<forall>i\<in>set res. 0 \<le> i
                   \<and> i \<le> int (length (average_distances (path_distances_of coords))) - 1)))"
proof -
  have total: "\<exists>res. calculate_closest_weather_indices path_distances_of forecasts
                      cumulative_distances = Some res"
    if "weather_coords forecasts = Some coords" "3 \<le> length (path_distances_of coords) + 1"
      "cumulative_distances \<noteq> []"
    for coords
  proof -
    have "0 < int (length (average_distances (path_distances_of coords)))"
      using that(2) by (simp add: length_average_distances)
    from weather_cursor_loop_props [where cur = 0 and ds = cumulative_distances, OF _ this]
      that(1,3)
    show ?thesis
      by (auto simp: calculate_closest_weather_indices_def)
  qed
  have partial: "\<exists>coords. weather_coords forecasts = Some coords
            \<and> length res = length cumulative_distances
            \<and> (\<forall>k. k < length res \<longrightarrow>
                   (if k = 0 then 0 else res ! (k - 1)) \<le> res ! k
                 \<and> res ! k \<le> (if k = 0 then 0 else res ! (k - 1)) + 1)
            \<and> (\<forall>i\<in>set res. 0 \<le> i
                   \<and> i \<le> int (length (average_distances (path_distances_of coords))) - 1)"
    if run: "calculate_closest_weather_indices path_distances_of forecasts cumulative_distances
              = Some res" for res
  proof -
    from run obtain coords where coords: "weather_coords forecasts = Some coords"
      and ne: "cumulative_distances \<noteq> []"
      and loop: "weather_cursor_loop (average_distances (path_distances_of coords)) 0
                   cumulative_distances = Some res"
      by (auto simp: calculate_closest_weather_indices_def bind_eq_Some_conv split: if_splits)
    have "average_distances (path_distances_of coords) \<noteq> []"
    proof
      assume "average_distances (path_distances_of coords) = []"
      with loop ne show False
        by (cases cumulative_distances) (simp_all add: py_get_empty)
    qed
    then have "0 < int (length (average_distances (path_distances_of coords)))"
      by simp
    from weather_cursor_loop_props [where cur = 0 and ds = cumulative_distances, OF _ this] loop
    have "length res = length cumulative_distances
        \<and> (\<forall>k. k < length res \<longrightarrow>
               (if k = 0 then 0 else res ! (k - 1)) \<le> res ! k
             \<and> res ! k \<le> (if k = 0 then 0 else res ! (k - 1)) + 1)
        \<and> (\<forall>i\<in>set res. 0 \<le> i
              \<and> i < int (length (average_distances (path_distances_of coords))))"
      by auto
    with coords show ?thesis
      by auto
  qed
  from total partial show ?thesis
    by blast
qed

theorem closest_weather_indices_bounded_steps_witness:
  "weather_coords
       [[example_forecast_row 0 0], [example_forecast_row 1 0], [example_forecast_row 2 0],
        [example_forecast_row 3 0], [example_forecast_row 4 0]]
     = Some [(0, 0), (1, 0), (2, 0), (3, 0), (4, 0)]
   \<and> calculate_closest_weather_indices
         (\<lambda>coords. map2 (\<lambda>a b. \<bar>fst b - fst a\<bar> * 100) coords (tl coords))
         [[example_forecast_row 0 0], [example_forecast_row 1 0], [example_forecast_row 2 0],
          [example_forecast_row 3 0], [example_forecast_row 4 0]]
         [1000, 0, 1000, 1000]
       = Some [1, 1, 2, 2]
   \<and> list_all (\<lambda>i. 0 \<le> i \<and> i \<le> 2) [1, 1, 2, 2 :: int]"
proof -
  let ?f = "\<lambda>coords :: (real \<times> real) list. map2 (\<lambda>a b. \<bar>fst b - fst a\<bar> * 100) coords (tl coords)"
  let ?w = "[[example_forecast_row 0 0], [example_forecast_row 1 0], [example_forecast_row 2 0],
             [example_forecast_row 3 0], [example_forecast_row 4 0]]"
  have coords: "weather_coords ?w = Some [(0, 0), (1, 0), (2, 0), (3, 0), (4, 0)]"
    by (simp add: weather_coords_def py_get_def example_forecast_row_def)
  have run: "calculate_closest_weather_indices ?f ?w [1000, 0, 1000, 1000] = Some [1, 1, 2, 2]"
    unfolding calculate_closest_weather_indices_def coords
    by (simp add: average_distances_def cumsum_def py_get_def)
  from closest_weather_indices_bounded_steps [of ?w ?f "[1000, 0, 1000, 1000]"] run coords
  have "\<forall>i\<in>set [1, 1, 2, 2 :: int].
          0 \<le> i \<and> i \<le> int (length (average_distances (?f [(0, 0), (1, 0), (2, 0), (3, 0), (4, 0)]))) - 1"
    by auto
  then have "list_all (\<lambda>i. 0 \<le> i \<and> i \<le> 2) [1, 1, 2, 2 :: int]"
    by (simp add: length_average_distances)
  with coords run show ?thesis
    by blast
qed

section \<open>The motor model\<close>

text \<open>
  C5.  The claim divides the output shaft energy by the motor efficiency and by the
  motor-controller efficiency.  \<open>calculate_energy_in\<close>, the function the simulation
  calls, divides by the motor efficiency only, so for one speed, gradient and wind it
  returns the shaft energy over \<open>e_m\<close>; at 36 km/h on level ground in still air over a
  one-second tick that is not the claimed value.  The sibling path,
  \<open>calculate_power_in\<close> followed by \<open>update\<close>, divides by both.
\<close>

theorem calculate_energy_in_omits_controller_efficiency:
  "calculate_energy_in BasicMotor [v] [g] [w] t
     = Some [shaft_energy BasicMotor v g w t / e_m BasicMotor]
   \<and> calculate_energy_in BasicMotor [36] [0] [0] 1
     \<noteq> Some [shaft_energy BasicMotor 36 0 0 1 / e_m BasicMotor / e_mc BasicMotor]
   \<and> consumed_energy (update (calculate_power_in BasicMotor v g w) t)
     = shaft_energy BasicMotor v g w t / e_m BasicMotor / e_mc BasicMotor"
proof -
  have code: "calculate_energy_in BasicMotor [v] [g] [w] t
     = Some [shaft_energy BasicMotor v g w t / e_m BasicMotor]"
    by (simp add: calculate_energy_in_def broadcast2_def shaft_energy_def)
  have differs: "calculate_energy_in BasicMotor [36] [0] [0] 1
     \<noteq> Some [shaft_energy BasicMotor 36 0 0 1 / e_m BasicMotor / e_mc BasicMotor]"
    by (simp add: calculate_energy_in_def broadcast2_def shaft_energy_def BasicMotor_def
        power2_eq_square)
  have sibling: "consumed_energy (update (calculate_power_in BasicMotor v g w) t)
     = shaft_energy BasicMotor v g w t / e_m BasicMotor / e_mc BasicMotor"
    by (simp add: update_def calculate_power_in_def shaft_energy_def Let_def)
  from code differs sibling show ?thesis
    by blast
qed

lemma calculate_energy_in_zero_elems:
  assumes "calculate_energy_in m speeds gradients winds t = Some res"
    and "\<forall>v\<in>set speeds. v = 0" and "e \<in> set res"
  shows "e = 0"
proof -
  from assms(1) obtain ang_array forces powers where
    a: "broadcast2 (*) (replicate (length gradients) 1)
          (map (\<lambda>v. v / tire_radius m) (map (\<lambda>v. v / 3.6) speeds)) = Some ang_array"
    and p: "broadcast2 (*) ang_array forces = Some powers"
    and r: "res = map (\<lambda>e. e / e_m m) (map (\<lambda>p. p * t) powers)"
    unfolding calculate_energy_in_def
    by (auto simp: bind_eq_Some_conv Let_def)
  have ang: "x = 0" if "x \<in> set ang_array" for x
    using broadcast2_elems [OF a that] assms(2) by auto
  have "x = 0" if "x \<in> set powers" for x
    using broadcast2_elems [OF p that] ang by auto
  with assms(3) r show ?thesis
    by auto
qed

lemma calculate_energy_in_same_length:
  assumes "length speeds = n" "length gradients = n" "length winds = n"
  shows "\<exists>res. calculate_energy_in m speeds gradients winds t = Some res \<and> length res = n"
  using assms by (simp add: calculate_energy_in_def broadcast2_def)

text \<open>
  C8.  For every gradient, wind speed and tick length, the motor energy model at speed 0
  gives exactly 0: whatever \<open>calculate_energy_in\<close> returns for speeds that are all zero
  is zero everywhere, and for \<open>n\<close> zero speeds with \<open>n\<close> gradients and \<open>n\<close> wind speeds it
  returns \<open>n\<close> zeros.
\<close>

theorem zero_speed_zero_energy:
  "(\<forall>res. calculate_energy_in BasicMotor speeds gradients winds t = Some res
           \<and> (\<forall>v\<in>set speeds. v = 0) \<longrightarrow> (\<forall>e\<in>set res. e = 0))
   \<and> (length gradients = n \<and> length winds = n \<longrightarrow>
        calculate_energy_in BasicMotor (replicate n 0) gradients winds t = Some (replicate n 0))"
proof -
  have one: "\<forall>e\<in>set res. e = 0"
    if "calculate_energy_in BasicMotor speeds gradients winds t = Some res" "\<forall>v\<in>set speeds. v = 0"
    for res
    using calculate_energy_in_zero_elems [OF that] by blast
  have two: "calculate_energy_in BasicMotor (replicate n 0) gradients winds t = Some (replicate n 0)"
    if "length gradients = n" "length winds = n"
  proof -
    from calculate_energy_in_same_length [of "replicate n 0" n gradients winds BasicMotor t] that
    obtain res where res: "calculate_energy_in BasicMotor (replicate n 0) gradients winds t = Some res"
      "length res = n"
      by auto
    have "e = 0" if "e \<in> set res" for e
      using calculate_energy_in_zero_elems [OF res(1) _ that] by simp
    with res(2) have "res = replicate n 0"
      by (intro replicate_eqI) auto
    with res(1) show ?thesis by simp
  qed
  from one two show ?thesis by blast
qed

theorem zero_speed_zero_energy_witness:
  "calculate_energy_in BasicMotor [0] [0.02, - 0.01] [3, - 5] 1 = Some [0, 0]
   \<and> calculate_energy_in BasicMotor [0, 0] [0.02, - 0.01] [3, - 5] 1 = Some [0, 0]
   \<and> list_all (\<lambda>e. e = 0) [0, 0 :: real]
   \<and> calculate_energy_in BasicMotor [36] [0.02] [3] 1 \<noteq> Some [0]"
proof -
  note inst = zero_speed_zero_energy [of "[0]" "[0.02, - 0.01]" "[3, - 5]" 1 2]
  have scalar: "calculate_energy_in BasicMotor [0] [0.02, - 0.01] [3, - 5] 1 = Some [0, 0]"
    by (simp add: calculate_energy_in_def broadcast2_def)
  from inst scalar have zeros: "\<forall>e\<in>set [0, 0 :: real]. e = 0"
    by simp
  from inst have array: "calculate_energy_in BasicMotor [0, 0] [0.02, - 0.01] [3, - 5] 1 = Some [0, 0]"
    by (simp add: numeral_2_eq_2)
  have moving: "calculate_energy_in BasicMotor [36] [0.02] [3] 1 \<noteq> Some [0]"
    by (simp add: calculate_energy_in_def broadcast2_def BasicMotor_def power2_eq_square)
  from scalar array zeros moving show ?thesis
    by simp
qed

section \<open>Cloud attenuation\<close>

text \<open>
  C6.  \<open>cloud_cover_to_ghi_linear\<close> gives 0.35 times the clear-sky value at 100% cloud
  cover, the clear-sky value at 0%, \<open>ghi * (1 - 0.65 * cloud_cover/100)\<close> elementwise in
  general, and the two results the tests expect.
\<close>

theorem cloud_cover_to_ghi_linear_anchors:
  "cloud_cover_to_ghi_linear [100] [ghi] = Some [0.35 * ghi]
   \<and> cloud_cover_to_ghi_linear [0] [ghi] = Some [ghi]
   \<and> cloud_cover_to_ghi_linear (map fst cs) (map snd cs)
       = Some (map (\<lambda>(c, g). g * (1 - 0.65 * c / 100)) cs)
   \<and> cloud_cover_to_ghi_linear [100, 100, 100] [500, 300, 100] = Some [175, 105, 35]
   \<and> cloud_cover_to_ghi_linear [80, 0, 30] [500, 300, 100] = Some [240, 300, 80.5]"
proof -
  have "map2 (\<lambda>c ghi. ghi * (1 - 0.65 * c / 100)) (map fst cs) (map snd cs)
     = map (\<lambda>(c, g). g * (1 - 0.65 * c / 100)) cs"
    by (induction cs) auto
  then show ?thesis
    by (simp add: cloud_cover_to_ghi_linear_def broadcast2_def)
qed

section \<open>Forecast lookup in time\<close>

text \<open>
  C7.  The claim has each query select, among the entries of its own coordinate, the one
  whose local time is nearest to the queried timestamp.  \<open>get_weather_forecast_in_time\<close>
  finds the nearest time once, in the local times of the first query's coordinate, and
  reads that position in every coordinate.  With two coordinates one time zone apart
  (offsets \<open>-18000\<close> and \<open>-21600\<close>) and daily entries, the query at the second
  coordinate for local time 1627842000 gets the entry of local time 1627797600, 44400
  seconds away, although the second coordinate's other entry, of local time 1627884000,
  is 42000 seconds away.
\<close>

theorem forecast_in_time_reads_first_coordinate_times:
  "get_weather_forecast_in_time
     [[example_forecast_at 39 1627819200 (- 18000), example_forecast_at 39 1627905600 (- 18000)],
      [example_forecast_at 41 1627819200 (- 21600), example_forecast_at 41 1627905600 (- 21600)]]
     [0, 1] [1627801200, 1627842000]
   = Some [example_forecast_at 39 1627819200 (- 18000), example_forecast_at 41 1627819200 (- 21600)]
   \<and> \<bar>1627842000 - dt_local (example_forecast_at 41 1627905600 (- 21600))\<bar>
       < \<bar>1627842000 - dt_local (example_forecast_at 41 1627819200 (- 21600))\<bar>"
  by (simp add: get_weather_forecast_in_time_def take_indices_def py_get_def argmin_def
      broadcast2_def example_forecast_at_def)

text \<open>
  On a rectangular forecast array with a non-empty horizon the lookup returns one row per
  query.
\<close>

lemma get_weather_forecast_in_time_total:
  assumes idx: "\<forall>i\<in>set idx. 0 \<le> i \<and> i < int (length forecasts)"
    and rect: "\<forall>rows\<in>set forecasts. length rows = T" and T: "0 < T"
    and len: "length ts = length idx" and ne: "idx \<noteq> []"
  shows "\<exists>rows. get_weather_forecast_in_time forecasts idx ts = Some rows \<and> length rows = length idx"
proof -
  define full where "full = map (\<lambda>i. forecasts ! nat i) idx"
  have full: "take_indices forecasts idx = Some full"
    unfolding full_def by (rule take_indices_total [OF idx])
  have full_len: "length full = length idx"
    by (simp add: full_def)
  have full_rows: "length (full ! q) = T" if "q < length full" for q
  proof -
    from that have "idx ! q \<in> set idx"
      by (simp add: full_def)
    with idx have "nat (idx ! q) < length forecasts"
      by auto
    then have "forecasts ! nat (idx ! q) \<in> set forecasts"
      by simp
    with rect that show ?thesis
      by (simp add: full_def)
  qed
  define first where "first = full ! 0"
  have first: "py_get full 0 = Some first"
    using ne full_len by (simp add: py_get_in_range first_def)
  have first_len: "length first = T"
    using full_rows [of 0] ne full_len by (simp add: first_def)
  define pick where
    "pick t = the (argmin (map (\<lambda>d. \<bar>t - d\<bar>) (map dt_local first)))" for t :: real
  have pick: "argmin (map (\<lambda>d. \<bar>t - d\<bar>) (map dt_local first)) = Some (pick t) \<and> pick t < T" for t
  proof -
    have "map (\<lambda>d. \<bar>t - d\<bar>) (map dt_local first) \<noteq> []"
      using first_len T by auto
    from argmin_total [OF this] show ?thesis
      by (auto simp: pick_def first_len)
  qed
  have closest: "those (map (\<lambda>t. argmin (map (\<lambda>d. \<bar>t - d\<bar>) (map dt_local first))) ts)
      = Some (map pick ts)"
    by (rule those_map_Some) (rule conjunct1 [OF pick])
  have pairs: "broadcast2 Pair [0 ..< length full] (map pick ts) = Some (zip [0 ..< length full] (map pick ts))"
    using len full_len by (simp add: broadcast2_def)
  have rows: "those (map (\<lambda>(q, t). do { rows \<leftarrow> py_get full (int q); py_get rows (int t) })
                 (zip [0 ..< length full] (map pick ts)))
      = Some (map (\<lambda>(q, t). full ! q ! t) (zip [0 ..< length full] (map pick ts)))"
  proof (rule those_map_Some)
    fix p assume p: "p \<in> set (zip [0 ..< length full] (map pick ts))"
    obtain q t where qt: "p = (q, t)"
      by (cases p)
    from p qt have q: "q < length full"
      by (auto dest: set_zip_leftD)
    from p qt have "t \<in> set (map pick ts)"
      by (auto dest: set_zip_rightD)
    with pick have t: "t < T"
      by auto
    from q t full_rows [OF q] show "(case p of (q, t) \<Rightarrow>
            do { rows \<leftarrow> py_get full (int q); py_get rows (int t) })
          = Some (case p of (q, t) \<Rightarrow> full ! q ! t)"
      by (simp add: qt py_get_in_range)
  qed
  have "get_weather_forecast_in_time forecasts idx ts
      = Some (map (\<lambda>(q, t). full ! q ! t) (zip [0 ..< length full] (map pick ts)))"
    unfolding get_weather_forecast_in_time_def
    by (simp only: Let_def full first closest pairs rows Option.bind.bind_lunit)
  then show ?thesis
    using len full_len by simp
qed

section \<open>The hours of the ticks\<close>



section \<open>The stages of a run\<close>


lemma gated_speed_zero_soc:
  assumes moving: "broadcast2 (\<lambda>allowed soc. allowed \<and> soc \<noteq> 0) nc soc = Some moving"
    and final: "mask_times moving speed1 = Some final"
    and i: "i < length final" "i < length soc"
    and off: "soc ! i = 0"
  shows "final ! i = 0"
proof -
  from final have b: "broadcast2 (\<lambda>b v. of_bool b * v) moving speed1 = Some final"
    by (simp add: mask_times_def)
  have im: "i < length moving"
    using broadcast2_shape [OF b] broadcast2_shape [OF moving] i by auto
  from broadcast2_nth_right [OF moving im i(2)] off have "\<not> moving ! i"
    by auto
  with broadcast2_nth_left [OF b i(1) im] show ?thesis
    by auto
qed

lemma motion_and_distance_gate:
  assumes "motion_and_distance c self nc speed1 delta maxd
             = Some (final, dists, soc, fsoc, tim, k, battery)"
  shows "\<exists>moving. broadcast2 (\<lambda>allowed s. allowed \<and> s \<noteq> 0) nc soc = Some moving
           \<and> mask_times moving speed1 = Some final"
  using assms unfolding motion_and_distance_def
  by (auto simp: bind_eq_Some_conv Let_def)

lemma motion_and_distance_soc:
  assumes "motion_and_distance c self nc speed1 delta maxd
             = Some (final, dists, soc, fsoc, tim, k, battery)"
  shows "\<exists>battery_soc returned.
             update_array c (basic_battery self) (cumsum delta) = Some (battery_soc, returned)
           \<and> soc = map snap_to_zero battery_soc
           \<and> battery = soc_written c returned soc"
  using assms unfolding motion_and_distance_def
  by (auto simp: bind_eq_Some_conv Let_def)

lemma motion_and_distance_freeze:
  assumes "motion_and_distance c self nc speed1 delta maxd
             = Some (final, dists, soc, fsoc, tim, k, battery)"
  shows "\<exists>distance tim0. dists = map (np_clip 0 (maxd / 1000)) (cumsum distance)
           \<and> k = (case first_index (\<lambda>d. d = maxd / 1000) dists of Some k \<Rightarrow> k
                  | None \<Rightarrow> length tim0)
           \<and> tim = take k tim0 @ map (\<lambda>_. 0) (drop k tim0)"
  using assms unfolding motion_and_distance_def
  by (auto simp: bind_eq_Some_conv Let_def)

lemma motion_and_distance_last_soc:
  assumes "motion_and_distance c self nc speed1 delta maxd
             = Some (final, dists, soc, fsoc, tim, k, battery)"
  shows "\<exists>last_soc. py_get soc (- 1) = Some last_soc \<and> fsoc = last_soc * 100"
  using assms unfolding motion_and_distance_def
  by (auto simp: bind_eq_Some_conv Let_def)

lemma weather_and_energy_max:
  assumes "weather_and_energy c self speed1 nc
             = Some (maxd, tz, lt, delta, solar, wind, elev, cc, lvs)"
  shows "py_get (cumsum (path_distances self)) (- 1) = Some maxd"
  using assms unfolding weather_and_energy_def
  by (auto simp: bind_eq_Some_conv Let_def)

lemma run_locals_SomeD:
  assumes "run_simulation_calculations_locals c self v = Some (r, s', l)"
  shows "\<exists>driving speed1 maxd tz lt delta solar wind elev cc lvs final dists soc fsoc tim k
            battery travelled.
      broadcast2 (\<lambda>v allowed. v \<noteq> 0 \<and> allowed) v
          (map driving_allowed (simulation_hours_by_second self)) = Some driving
    \<and> mask_times driving v = Some speed1
    \<and> weather_and_energy c self speed1 (map driving_allowed (simulation_hours_by_second self))
         = Some (maxd, tz, lt, delta, solar, wind, elev, cc, lvs)
    \<and> motion_and_distance c (self\<lparr>route_length := maxd / 1000, basic_lvs := lvs\<rparr>)
         (map driving_allowed (simulation_hours_by_second self)) speed1 delta maxd
         = Some (final, dists, soc, fsoc, tim, k, battery)
    \<and> py_get dists (- 1) = Some travelled
    \<and> r = \<lparr> arrays = [final, dists, soc, delta, solar, wind, elev, cc],
             distance_travelled = travelled,
             time_taken = astype_int (sum_list tim),
             final_soc = fsoc \<rparr>
    \<and> s' = self\<lparr>route_length := maxd / 1000, basic_lvs := lvs, basic_battery := battery,
                 time_zones := tz, local_times := lt\<rparr>
    \<and> l = \<lparr> not_charge = map driving_allowed (simulation_hours_by_second self),
             time_in_motion = tim, max_route_distance = maxd, max_dist_index = k \<rparr>"
  using assms unfolding run_simulation_calculations_locals_def
  by (clarsimp simp: bind_eq_Some_conv Let_def split: prod.splits)

lemma weather_and_energy_metres:
  assumes "weather_and_energy c self speed1 nc = Some out"
  shows "\<exists>metres. broadcast2 (*) (0 # np_diff (timestamps self)) speed1 = Some metres"
  using assms unfolding weather_and_energy_def
  by (auto simp: bind_eq_Some_conv Let_def)

lemma run_SomeD:
  assumes "run_simulation_calculations c self v = Some (r, s')"
  shows "\<exists>l. run_simulation_calculations_locals c self v = Some (r, s', l)"
  using assms by (auto simp: run_simulation_calculations_def)

lemma run_locals_SomeI:
  assumes d: "broadcast2 (\<lambda>v allowed. v \<noteq> 0 \<and> allowed) v
          (map driving_allowed (simulation_hours_by_second self)) = Some driving"
    and s1: "mask_times driving v = Some speed1"
    and w: "weather_and_energy c self speed1 (map driving_allowed (simulation_hours_by_second self))
         = Some (maxd, tz, lt, delta, solar, wind, elev, cc, lvs)"
    and m: "motion_and_distance c (self\<lparr>route_length := maxd / 1000, basic_lvs := lvs\<rparr>)
         (map driving_allowed (simulation_hours_by_second self)) speed1 delta maxd
         = Some (final, dists, soc, fsoc, tim, k, battery)"
    and t: "py_get dists (- 1) = Some travelled"
  shows "run_simulation_calculations_locals c self v
       = Some (\<lparr> arrays = [final, dists, soc, delta, solar, wind, elev, cc],
                  distance_travelled = travelled,
                  time_taken = astype_int (sum_list tim),
                  final_soc = fsoc \<rparr>,
               self\<lparr>route_length := maxd / 1000, basic_lvs := lvs, basic_battery := battery,
                     time_zones := tz, local_times := lt\<rparr>,
               \<lparr> not_charge = map driving_allowed (simulation_hours_by_second self),
                 time_in_motion = tim, max_route_distance = maxd, max_dist_index = k \<rparr>)"
  unfolding run_simulation_calculations_locals_def
  by (simp only: Let_def d s1 w m t Option.bind.bind_lunit prod.case)


section \<open>A run on well-formed models returns\<close>

text \<open>
  With one speed and one curfew hour per timestamp, a route of at least three coordinates,
  a rectangular forecast array over at least three weather coordinates, and collaborators
  that return one value per sample, every stage of a run succeeds.
\<close>

lemma weather_and_energy_total:
  assumes L: "length (timestamps self) = L" "0 < L" "length speed1 = L" "length nc = L"
    and route: "2 \<le> length (path_distances self)"
      "length (path_distances self) - 1 \<le> length (path_elevations self)"
      "length (path_distances self) - 1 \<le> length (vehicle_bearings self)"
      "length (path_distances self) - 1 \<le> length (path_gradients self)"
      "length (path_distances self) - 1 \<le> length (path_time_zones self)"
      "length (path_distances self) - 1 \<le> length (route_coords self)"
    and weather: "weather_coords (weather_forecast self) = Some coords"
      "2 \<le> length (calculate_path_distances c coords)"
      "length (calculate_path_distances c coords) - 1 \<le> length (weather_forecast self)"
      "\<forall>rows\<in>set (weather_forecast self). length rows = T" "0 < T"
    and local: "\<And>ts t0 tz. length tz = length ts \<Longrightarrow>
        \<exists>lt. adjust_timestamps_to_local_times c ts t0 tz = Some lt \<and> length lt = length ts"
    and wind: "\<And>b ws wd. length b = length ws \<Longrightarrow> length wd = length ws \<Longrightarrow>
        \<exists>w. get_array_directional_wind_speed c b ws wd = Some w \<and> length w = length ws"
    and ghi: "\<And>cs tz lt el cc. length cs = length lt \<Longrightarrow> length tz = length lt \<Longrightarrow>
        length el = length lt \<Longrightarrow> length cc = length lt \<Longrightarrow>
        \<exists>g. calculate_array_GHI c cs tz lt el cc = Some g \<and> length g = length lt"
    and produced: "\<And>irr t. \<exists>e. calculate_produced_energy c irr t = Some e \<and> length e = length irr"
  shows "\<exists>tz lt delta solar wind elev cc.
      weather_and_energy c self speed1 nc
        = Some (sum_list (path_distances self), tz, lt, delta, solar, wind, elev, cc,
                lvs_update c (basic_lvs self) (tick self))
    \<and> length delta = L"
proof -
  define lvs where "lvs = lvs_update c (basic_lvs self) (tick self)"
  have "length (0 # np_diff (timestamps self)) = length speed1"
    using L by (simp add: length_np_diff)
  from broadcast2_total [OF this] obtain metres where
    metres: "broadcast2 (*) (0 # np_diff (timestamps self)) speed1 = Some metres"
    and metres_len: "length metres = L"
    using L by auto
  define cd where "cd = cumsum (map (\<lambda>d. d / 3.6) metres)"
  have cd_len: "length cd = L"
    by (simp add: cd_def length_cumsum metres_len)
  have avg: "0 < int (length (average_distances (path_distances self)))"
    "length (average_distances (path_distances self)) = length (path_distances self) - 1"
    using route(1) by (simp_all add: length_average_distances)
  from gis_cursor_loop_props [where cur = 0 and ds = cd, OF _ avg(1)] obtain idx where
    idx: "calculate_closest_gis_indices (path_distances self) cd = Some idx"
    and idx_len: "length idx = L"
    and idx_range: "\<forall>i\<in>set idx. 0 \<le> i \<and> i < int (length (path_distances self) - 1)"
    using cd_len avg(2) L(2) by (auto simp: calculate_closest_gis_indices_def)
  have wavg: "0 < int (length (average_distances (calculate_path_distances c coords)))"
    "length (average_distances (calculate_path_distances c coords))
       = length (calculate_path_distances c coords) - 1"
    using weather(2) by (simp_all add: length_average_distances)
  from weather_cursor_loop_props [where cur = 0 and ds = cd, OF _ wavg(1)] obtain widx where
    loop: "weather_cursor_loop (average_distances (calculate_path_distances c coords)) 0 cd
             = Some widx"
    and widx_len': "length widx = length cd"
    and widx_range': "\<forall>i\<in>set widx. 0 \<le> i
        \<and> i < int (length (average_distances (calculate_path_distances c coords)))"
    by auto
  have widx: "calculate_closest_weather_indices (calculate_path_distances c)
             (weather_forecast self) cd = Some widx"
    using loop weather(1) cd_len L(2) by (auto simp: calculate_closest_weather_indices_def)
  have widx_len: "length widx = L"
    using widx_len' cd_len by simp
  have widx_range: "\<forall>i\<in>set widx. 0 \<le> i \<and> i < int (length (weather_forecast self))"
    using widx_range' wavg(2) weather(3) by fastforce
  have pd_ne: "path_distances self \<noteq> []"
    using route(1) by auto
  then have "cumsum (path_distances self) \<noteq> []"
    by (simp add: cumsum_def cumsum_from_eq_Nil)
  from py_get_last [OF this]
  have maxd: "py_get (cumsum (path_distances self)) (- 1) = Some (sum_list (path_distances self))"
    using pd_ne by (simp add: cumsum_def cumsum_from_last)
  have in_range: "\<forall>i\<in>set idx. 0 \<le> i \<and> i < int (length xs)"
    if "length (path_distances self) - 1 \<le> length xs" for xs :: "'x list"
    using idx_range that by fastforce
  define elev where "elev = map (\<lambda>i. path_elevations self ! nat i) idx"
  define bearings where "bearings = map (\<lambda>i. vehicle_bearings self ! nat i) idx"
  define gradients where "gradients = map (\<lambda>i. path_gradients self ! nat i) idx"
  define tz where "tz = map (\<lambda>i. path_time_zones self ! nat i) idx"
  define cs where "cs = map (\<lambda>i. route_coords self ! nat i) idx"
  have elev: "take_indices (path_elevations self) idx = Some elev"
    and bearings: "take_indices (vehicle_bearings self) idx = Some bearings"
    and gradients: "take_indices (path_gradients self) idx = Some gradients"
    and tz: "take_indices (path_time_zones self) idx = Some tz"
    and cs: "take_indices (route_coords self) idx = Some cs"
    unfolding elev_def bearings_def gradients_def tz_def cs_def
    using route(2-6) by (simp_all add: take_indices_total in_range)
  have lens: "length elev = L" "length bearings = L" "length gradients = L" "length tz = L"
    "length cs = L"
    by (simp_all add: elev_def bearings_def gradients_def tz_def cs_def idx_len)
  from local [of tz "timestamps self" "time_of_initialization self"] obtain lt where
    lt: "adjust_timestamps_to_local_times c (timestamps self) (time_of_initialization self) tz
           = Some lt"
    and lt_len: "length lt = L"
    using lens L by auto
  have "widx \<noteq> []"
    using widx_len L(2) by auto
  from get_weather_forecast_in_time_total [OF widx_range weather(4,5) _ this, of lt]
  obtain wfs where
    wfs: "get_weather_forecast_in_time (weather_forecast self) widx lt = Some wfs"
    and wfs_len: "length wfs = L"
    using lt_len widx_len by auto
  define ff where "ff = wfs ! 0"
  have ff: "py_get wfs 0 = Some ff"
    using wfs_len L(2) by (simp add: py_get_in_range ff_def)
  define rolled where
    "rolled = np_roll wfs
       (- (3600 * (24 + start_hour self - hour_from_unix_timestamp c (dt ff))))"
  have rolled_len: "length rolled = L"
    by (simp add: rolled_def length_np_roll wfs_len)
  from wind [of bearings "map wind_speed rolled" "map wind_direction rolled"] obtain ws where
    ws: "get_array_directional_wind_speed c bearings (map wind_speed rolled)
           (map wind_direction rolled) = Some ws"
    and ws_len: "length ws = L"
    using lens rolled_len by auto
  from ghi [of cs lt tz elev "map (\<lambda>_. 0) (map cloud_cover rolled)"] obtain solar where
    solar: "calculate_array_GHI c cs tz lt elev (map (\<lambda>_. 0) (map cloud_cover rolled))
              = Some solar"
    and solar_len: "length solar = L"
    using lens lt_len rolled_len by auto
  from calculate_energy_in_same_length [of speed1 L gradients ws "basic_motor self" "tick self"]
  obtain motor where
    motor: "calculate_energy_in (basic_motor self) speed1 gradients ws (tick self) = Some motor"
    and motor_len: "length motor = L"
    using L lens ws_len by auto
  from produced [of solar "tick self"] obtain prod where
    prod: "calculate_produced_energy c solar (tick self) = Some prod"
    and prod_len: "length prod = L"
    using solar_len by auto
  from broadcast2_total [of motor nc] obtain drawing where
    drawing: "broadcast2 (\<lambda>e allowed. e \<noteq> 0 \<and> allowed) motor nc = Some drawing"
    and drawing_len: "length drawing = L"
    using motor_len L by metis
  from broadcast2_total [of drawing motor] obtain motor2 where
    motor2: "mask_times drawing motor = Some motor2"
    and motor2_len: "length motor2 = L"
    unfolding mask_times_def using motor_len drawing_len by metis
  from broadcast2_total
    [of prod "map (\<lambda>e. e + get_consumed_energy c lvs) motor2" "(-)"]
  obtain delta where
    delta: "broadcast2 (-) prod (map (\<lambda>e. e + get_consumed_energy c lvs) motor2)
              = Some delta"
    and delta_len: "length delta = L"
    using prod_len motor2_len by auto
  have "weather_and_energy c self speed1 nc
      = Some (sum_list (path_distances self), tz, lt, delta, solar, ws, elev,
              map (\<lambda>_. 0) (map cloud_cover rolled), lvs)"
    unfolding weather_and_energy_def
    by (simp only: Let_def metres idx [unfolded cd_def] widx [unfolded cd_def] maxd elev
        bearings gradients tz lt wfs ff ws [unfolded rolled_def] cs solar [unfolded rolled_def]
        motor prod drawing motor2 delta [unfolded lvs_def] Option.bind.bind_lunit rolled_def
        lvs_def)
  with delta_len show ?thesis
    unfolding lvs_def by blast
qed

lemma motion_and_distance_total:
  assumes L: "length (timestamps self) = L" "0 < L" "length speed1 = L" "length nc = L"
      "length delta = L"
    and battery: "\<And>b xs. \<exists>ys b'. update_array c b xs = Some (ys, b') \<and> length ys = length xs"
  shows "\<exists>final dists soc fsoc tim k battery.
      motion_and_distance c self nc speed1 delta maxd
        = Some (final, dists, soc, fsoc, tim, k, battery)
    \<and> length final = L \<and> length dists = L \<and> length soc = L \<and> length tim = L"
proof -
  obtain t0 later where ts: "timestamps self = t0 # later"
    using L(1,2) by (cases "timestamps self") auto
  define tick_array where "tick_array = 0 # map (\<lambda>_. tick self) later"
  have tick_array: "(case timestamps self of [] \<Rightarrow> None
          | _ # later \<Rightarrow> Some (0 # map (\<lambda>_. tick self) later)) = Some tick_array"
    by (simp add: ts tick_array_def)
  have tick_len: "length tick_array = L"
    using L(1) ts by (simp add: tick_array_def)
  from battery [of "basic_battery self" "cumsum delta"] obtain battery_soc returned where
    b: "update_array c (basic_battery self) (cumsum delta) = Some (battery_soc, returned)"
    and b_len: "length battery_soc = L"
    using L(5) by (auto simp: length_cumsum)
  define soc where "soc = map snap_to_zero battery_soc"
  have soc_len: "length soc = L"
    by (simp add: soc_def b_len)
  from broadcast2_total [of nc soc] obtain moving where
    moving: "broadcast2 (\<lambda>allowed soc. allowed \<and> soc \<noteq> 0) nc soc = Some moving"
    and moving_len: "length moving = L"
    using L(4) soc_len by metis
  from broadcast2_total [of moving speed1] obtain final where
    final: "mask_times moving speed1 = Some final"
    and final_len: "length final = L"
    unfolding mask_times_def using L(3) moving_len by metis
  from broadcast2_total [of tick_array final] obtain in_motion where
    in_motion: "broadcast2 (\<lambda>t v. t \<noteq> 0 \<and> v \<noteq> 0) tick_array final = Some in_motion"
    and in_motion_len: "length in_motion = L"
    using tick_len final_len by metis
  define tim0 where "tim0 = map (\<lambda>b. of_bool b * tick self) in_motion"
  have tim0_len: "length tim0 = L"
    by (simp add: tim0_def in_motion_len)
  have "soc \<noteq> []"
    using soc_len L(2) by auto
  from py_get_last [OF this] have last_soc: "py_get soc (- 1) = Some (last soc)" .
  from broadcast2_total [of final tim0] obtain distance where
    distance: "broadcast2 (\<lambda>v t. v * (t / 3600)) final tim0 = Some distance"
    and distance_len: "length distance = L"
    using final_len tim0_len by metis
  define dists where "dists = map (np_clip 0 (maxd / 1000)) (cumsum distance)"
  define k where "k = (case first_index (\<lambda>d. d = maxd / 1000) dists of
            Some k \<Rightarrow> k | None \<Rightarrow> length tim0)"
  have "motion_and_distance c self nc speed1 delta maxd
      = Some (final, dists, soc, last soc * 100 + 0,
              take k tim0 @ map (\<lambda>_. 0) (drop k tim0), k, soc_written c returned soc)"
    unfolding motion_and_distance_def
    by (simp only: Let_def tick_array b moving [unfolded soc_def] final
        in_motion last_soc [unfolded soc_def] distance [unfolded tim0_def]
        Option.bind.bind_lunit prod.case soc_def dists_def k_def tim0_def)
  moreover have "length dists = L"
    by (simp add: dists_def length_cumsum distance_len)
  moreover have "length (take k tim0 @ map (\<lambda>_. 0) (drop k tim0)) = L"
    using tim0_len by simp
  ultimately show ?thesis
    using final_len soc_len by blast
qed

lemma run_locals_total:
  assumes L: "length (timestamps self) = L" "0 < L" "length raw_speed = L"
      "length (simulation_hours_by_second self) = L"
    and route: "2 \<le> length (path_distances self)"
      "length (path_distances self) - 1 \<le> length (path_elevations self)"
      "length (path_distances self) - 1 \<le> length (vehicle_bearings self)"
      "length (path_distances self) - 1 \<le> length (path_gradients self)"
      "length (path_distances self) - 1 \<le> length (path_time_zones self)"
      "length (path_distances self) - 1 \<le> length (route_coords self)"
    and weather: "weather_coords (weather_forecast self) = Some coords"
      "2 \<le> length (calculate_path_distances c coords)"
      "length (calculate_path_distances c coords) - 1 \<le> length (weather_forecast self)"
      "\<forall>rows\<in>set (weather_forecast self). length rows = T" "0 < T"
    and local: "\<And>ts t0 tz. length tz = length ts \<Longrightarrow>
        \<exists>lt. adjust_timestamps_to_local_times c ts t0 tz = Some lt \<and> length lt = length ts"
    and wind: "\<And>b ws wd. length b = length ws \<Longrightarrow> length wd = length ws \<Longrightarrow>
        \<exists>w. get_array_directional_wind_speed c b ws wd = Some w \<and> length w = length ws"
    and ghi: "\<And>cs tz lt el cc. length cs = length lt \<Longrightarrow> length tz = length lt \<Longrightarrow>
        length el = length lt \<Longrightarrow> length cc = length lt \<Longrightarrow>
        \<exists>g. calculate_array_GHI c cs tz lt el cc = Some g \<and> length g = length lt"
    and produced: "\<And>irr t. \<exists>e. calculate_produced_energy c irr t = Some e \<and> length e = length irr"
    and battery: "\<And>b xs. \<exists>ys b'. update_array c b xs = Some (ys, b') \<and> length ys = length xs"
  shows "\<exists>result self' locals.
      run_simulation_calculations_locals c self raw_speed = Some (result, self', locals)
    \<and> length (speed_kmh_of result) = L \<and> length (distances_of result) = L
    \<and> length (state_of_charge_of result) = L \<and> length (time_in_motion locals) = L"
proof -
  define nc where "nc = map driving_allowed (simulation_hours_by_second self)"
  have nc_len: "length nc = L"
    by (simp add: nc_def L(4))
  from broadcast2_total [of raw_speed nc] obtain driving where
    driving: "broadcast2 (\<lambda>v allowed. v \<noteq> 0 \<and> allowed) raw_speed nc = Some driving"
    and driving_len: "length driving = L"
    using L(3) nc_len by metis
  from broadcast2_total [of driving raw_speed] obtain speed1 where
    speed1: "mask_times driving raw_speed = Some speed1"
    and speed1_len: "length speed1 = L"
    unfolding mask_times_def using L(3) driving_len by metis
  from weather_and_energy_total [OF L(1,2) speed1_len nc_len route weather local wind ghi produced]
  obtain tz lt delta solar ws elev cc where
    we: "weather_and_energy c self speed1 nc
           = Some (sum_list (path_distances self), tz, lt, delta, solar, ws, elev, cc,
                   lvs_update c (basic_lvs self) (tick self))"
    and delta_len: "length delta = L"
    by blast
  define self1 where
    "self1 = self\<lparr>route_length := sum_list (path_distances self) / 1000,
                   basic_lvs := lvs_update c (basic_lvs self) (tick self)\<rparr>"
  have "length (timestamps self1) = L"
    by (simp add: self1_def L(1))
  from motion_and_distance_total [OF this L(2) speed1_len nc_len delta_len battery,
      of "sum_list (path_distances self)"]
  obtain final dists soc fsoc tim k battery where
    md: "motion_and_distance c self1 nc speed1 delta (sum_list (path_distances self))
           = Some (final, dists, soc, fsoc, tim, k, battery)"
    and lens: "length final = L" "length dists = L" "length soc = L" "length tim = L"
    by blast
  have "dists \<noteq> []"
    using lens(2) L(2) by auto
  from py_get_last [OF this] have travelled: "py_get dists (- 1) = Some (last dists)" .
  have "run_simulation_calculations_locals c self raw_speed
      = Some (\<lparr> arrays = [final, dists, soc, delta, solar, ws, elev, cc],
                 distance_travelled = last dists,
                 time_taken = astype_int (sum_list tim),
                 final_soc = fsoc \<rparr>,
              self1\<lparr>basic_battery := battery, time_zones := tz, local_times := lt\<rparr>,
              \<lparr> not_charge = nc, time_in_motion = tim,
                max_route_distance = sum_list (path_distances self), max_dist_index = k \<rparr>)"
    unfolding run_simulation_calculations_locals_def
    by (simp only: Let_def driving [unfolded nc_def] speed1 we [unfolded nc_def]
        md [unfolded nc_def self1_def] travelled Option.bind.bind_lunit prod.case
        nc_def self1_def)
  then show ?thesis
    using lens by (auto simp: speed_kmh_of_def distances_of_def state_of_charge_of_def)
qed

section \<open>Runs of the concrete race\<close>

lemma example_hours:
  "simulation_hours_by_second (example_simulation 1 sh) = replicate 3600 sh @ [sh + 1]"
  by (simp add: simulation_hours_by_second_def example_simulation_def astype_int_def)

lemma example_run_total:
  assumes "length raw_speed = 3601"
  shows "\<exists>result self' locals.
      run_simulation_calculations_locals example_collaborators (example_simulation 1 sh) raw_speed
        = Some (result, self', locals)
    \<and> length (speed_kmh_of result) = 3601 \<and> length (distances_of result) = 3601
    \<and> length (state_of_charge_of result) = 3601 \<and> length (time_in_motion locals) = 3601"
proof (rule run_locals_total [where T = 1 and coords = "map (\<lambda>r. (latitude (hd r), longitude (hd r))) (weather_forecast (example_simulation 1 sh))"])
  show "length (timestamps (example_simulation 1 sh)) = 3601"
    by (simp add: example_simulation_def)
  show "length (simulation_hours_by_second (example_simulation 1 sh)) = 3601"
    unfolding example_hours by simp
  show "weather_coords (weather_forecast (example_simulation 1 sh)) =
    Some (map (\<lambda>r. (latitude (hd r), longitude (hd r))) (weather_forecast (example_simulation 1 sh)))"
    by (simp add: weather_coords_def example_simulation_def py_get_def)
qed (use assms in \<open>simp_all add: example_simulation_def example_collaborators_def broadcast2_def
      example_forecast_row_def\<close>)

lemma example_run_total_battery:
  assumes "length raw_speed = 3601"
  shows "\<exists>result self' locals.
      run_simulation_calculations_locals
        (example_collaborators\<lparr>update_array := BasicBattery_update_array charge capacity\<rparr>)
        (example_simulation 1 sh) raw_speed
        = Some (result, self', locals)
    \<and> length (speed_kmh_of result) = 3601 \<and> length (distances_of result) = 3601
    \<and> length (state_of_charge_of result) = 3601 \<and> length (time_in_motion locals) = 3601"
proof (rule run_locals_total [where T = 1 and coords = "map (\<lambda>r. (latitude (hd r), longitude (hd r))) (weather_forecast (example_simulation 1 sh))"])
  show "length (timestamps (example_simulation 1 sh)) = 3601"
    by (simp add: example_simulation_def)
  show "length (simulation_hours_by_second (example_simulation 1 sh)) = 3601"
    unfolding example_hours by simp
  show "weather_coords (weather_forecast (example_simulation 1 sh)) =
    Some (map (\<lambda>r. (latitude (hd r), longitude (hd r))) (weather_forecast (example_simulation 1 sh)))"
    by (simp add: weather_coords_def example_simulation_def py_get_def)
qed (use assms in \<open>simp_all add: example_simulation_def example_collaborators_def broadcast2_def
      example_forecast_row_def BasicBattery_update_array_def\<close>)

lemma example_motion:
  assumes delta: "length delta = Suc n"
    and ts: "timestamps self = map real [0 ..< Suc n]" and tick: "tick self = 1"
    and v: "v \<noteq> 0"
  shows "motion_and_distance example_collaborators self (replicate (Suc n) True)
           (replicate (Suc n) v) delta maxd
       = Some (replicate (Suc n) v,
               map (np_clip 0 (maxd / 1000)) (cumsum (0 # replicate n (v * (1 / 3600)))),
               replicate (Suc n) 1,
               1 * 100 + 0,
               take (case first_index (\<lambda>d. d = maxd / 1000)
                            (map (np_clip 0 (maxd / 1000)) (cumsum (0 # replicate n (v * (1 / 3600))))) of
                       Some k \<Rightarrow> k | None \<Rightarrow> length (0 # replicate n (1::real)))
                 (0 # replicate n 1)
               @ map (\<lambda>_. 0)
                  (drop (case first_index (\<lambda>d. d = maxd / 1000)
                            (map (np_clip 0 (maxd / 1000)) (cumsum (0 # replicate n (v * (1 / 3600))))) of
                       Some k \<Rightarrow> k | None \<Rightarrow> length (0 # replicate n (1::real)))
                    (0 # replicate n (1::real))),
               (case first_index (\<lambda>d. d = maxd / 1000)
                            (map (np_clip 0 (maxd / 1000)) (cumsum (0 # replicate n (v * (1 / 3600))))) of
                       Some k \<Rightarrow> k | None \<Rightarrow> length (0 # replicate n (1::real))),
               basic_battery self)"
proof -
  have later: "[0 ..< Suc n] = 0 # [Suc 0 ..< Suc n]"
    by (simp add: upt_conv_Cons)
  have f1: "(case timestamps self of [] \<Rightarrow> None
          | _ # later \<Rightarrow> Some (0 # map (\<lambda>_. tick self) later)) = Some (0 # replicate n 1)"
    unfolding ts later by (simp add: tick map_replicate_const)
  have f2: "update_array example_collaborators (basic_battery self) (cumsum delta)
      = Some (replicate (Suc n) 1, basic_battery self)"
    using delta by (simp add: example_collaborators_def map_replicate_const length_cumsum)
  have f10: "soc_written example_collaborators (basic_battery self) (replicate (Suc n) 1)
      = basic_battery self"
    by (simp add: example_collaborators_def)
  have f3: "map snap_to_zero (replicate (Suc n) 1) = replicate (Suc n) 1"
    by (simp add: snap_to_zero_def)
  have f4: "broadcast2 (\<lambda>allowed soc. allowed \<and> soc \<noteq> 0) (replicate (Suc n) True)
              (replicate (Suc n) (1::real)) = Some (replicate (Suc n) True)"
    unfolding broadcast2_replicate by simp
  have f5: "mask_times (replicate (Suc n) True) (replicate (Suc n) v) = Some (replicate (Suc n) v)"
    unfolding mask_times_def broadcast2_replicate by simp
  have f6: "broadcast2 (\<lambda>t v. t \<noteq> 0 \<and> v \<noteq> 0) (0 # replicate n (1::real)) (replicate (Suc n) v)
      = Some (False # replicate n True)"
    using v by (simp add: broadcast2_def zip_replicate)
  have f7: "map (\<lambda>b. of_bool b * tick self) (False # replicate n True) = 0 # replicate n 1"
    by (simp add: tick)
  have "replicate (Suc n) (1::real) ! n = 1"
    by (rule nth_replicate) simp
  then have f8: "py_get (replicate (Suc n) (1::real)) (- 1) = Some 1"
    by (simp add: py_get_def Let_def del: replicate.simps)
  have f9: "broadcast2 (\<lambda>v t. v * (t / 3600)) (replicate (Suc n) v) (0 # replicate n (1::real))
      = Some (0 # replicate n (v * (1 / 3600)))"
    by (simp add: broadcast2_def zip_replicate)
  show ?thesis
    unfolding motion_and_distance_def
    by (simp only: Let_def f1 f2 f3 f4 f5 f6 f7 f8 f9 f10 Option.bind.bind_lunit prod.case)
qed


lemma example_weather_and_energy:
  assumes "length speed1 = 3601" "length nc = 3601"
  shows "\<exists>tz lt delta solar wind elev cc.
      weather_and_energy example_collaborators (example_simulation 1 sh) speed1 nc
        = Some (sum_list (path_distances (example_simulation 1 sh)), tz, lt, delta, solar, wind,
                elev, cc,
                lvs_update example_collaborators (basic_lvs (example_simulation 1 sh))
                  (tick (example_simulation 1 sh)))
    \<and> length delta = 3601"
proof (rule weather_and_energy_total [where T = 1 and coords = "map (\<lambda>r. (latitude (hd r), longitude (hd r))) (weather_forecast (example_simulation 1 sh))"])
  show "length (timestamps (example_simulation 1 sh)) = 3601"
    by (simp add: example_simulation_def)
  show "weather_coords (weather_forecast (example_simulation 1 sh)) =
    Some (map (\<lambda>r. (latitude (hd r), longitude (hd r))) (weather_forecast (example_simulation 1 sh)))"
    by (simp add: weather_coords_def example_simulation_def py_get_def)
qed (use assms in \<open>simp_all add: example_simulation_def example_collaborators_def broadcast2_def
      example_forecast_row_def\<close>)

lemma example_run_driving:
  assumes v: "v \<noteq> 0"
  shows "\<exists>result self' locals.
      run_simulation_calculations_locals example_collaborators (example_simulation 1 9)
        (replicate (Suc 3600) v) = Some (result, self', locals)
    \<and> distances_of result = map (np_clip 0 (3 / 100)) (cumsum (0 # replicate 3600 (v * (1 / 3600))))
    \<and> speed_kmh_of result = replicate (Suc 3600) v
    \<and> length (time_in_motion locals) = Suc 3600"
proof -
  define self where "self = example_simulation 1 9"
  define raw where "raw = replicate (Suc 3600) v"
  define maxd where "maxd = sum_list (path_distances self)"
  have maxd: "maxd = 30"
    by (simp add: maxd_def self_def example_simulation_def)
  have "map driving_allowed (replicate 3600 9 @ [9 + 1]) = replicate 3600 True @ [True]"
    by (simp add: driving_allowed_def)
  also have "\<dots> = replicate (Suc 3600) True"
    by (simp only: replicate_append_same replicate_Suc)
  finally have nc: "map driving_allowed (simulation_hours_by_second self) = replicate (Suc 3600) True"
    unfolding self_def example_hours .
  have driving: "broadcast2 (\<lambda>v allowed. v \<noteq> 0 \<and> allowed) raw (replicate (Suc 3600) True)
      = Some (replicate (Suc 3600) True)"
    unfolding raw_def broadcast2_replicate using v by simp
  have speed1: "mask_times (replicate (Suc 3600) True) raw = Some raw"
    unfolding raw_def mask_times_def broadcast2_replicate by simp
  have l1: "length raw = 3601" and l2: "length (replicate (Suc 3600) True) = 3601"
    by (simp_all add: raw_def)
  from example_weather_and_energy [OF l1 l2, of 9]
  obtain tz lt delta solar ws elev cc where
    we: "weather_and_energy example_collaborators self raw (replicate (Suc 3600) True)
           = Some (maxd, tz, lt, delta, solar, ws, elev, cc,
                   lvs_update example_collaborators (basic_lvs self) (tick self))"
    and delta_len': "length delta = 3601"
    unfolding self_def maxd_def by blast
  from delta_len' have delta_len: "length delta = Suc 3600"
    by simp
  define dists where
    "dists = map (np_clip 0 (maxd / 1000)) (cumsum (0 # replicate 3600 (v * (1 / 3600))))"
  define k where "k = (case first_index (\<lambda>d. d = maxd / 1000) dists of
                         Some k \<Rightarrow> k | None \<Rightarrow> length (0 # replicate 3600 (1::real)))"
  define tim where "tim = take k (0 # replicate 3600 (1::real))
                            @ map (\<lambda>_. 0) (drop k (0 # replicate 3600 (1::real)))"
  define self1 where
    "self1 = self\<lparr>route_length := maxd / 1000,
                   basic_lvs := lvs_update example_collaborators (basic_lvs self) (tick self)\<rparr>"
  have md: "motion_and_distance example_collaborators self1
              (replicate (Suc 3600) True) raw delta maxd
      = Some (raw, dists, replicate (Suc 3600) 1, 1 * 100 + 0, tim, k, basic_battery self1)"
    unfolding raw_def dists_def k_def tim_def
    by (rule example_motion [OF delta_len _ _ v])
      (simp_all add: self1_def self_def example_simulation_def)
  have "dists \<noteq> []"
    by (simp add: dists_def cumsum_def)
  from py_get_last [OF this] have travelled: "py_get dists (- 1) = Some (last dists)" .
  have run: "run_simulation_calculations_locals example_collaborators self raw
      = Some (\<lparr> arrays = [raw, dists, replicate (Suc 3600) 1, delta, solar, ws, elev, cc],
                 distance_travelled = last dists,
                 time_taken = astype_int (sum_list tim),
                 final_soc = 1 * 100 + 0 \<rparr>,
              self1\<lparr>basic_battery := basic_battery self1, time_zones := tz,
                      local_times := lt\<rparr>,
              \<lparr> not_charge = replicate (Suc 3600) True, time_in_motion = tim,
                max_route_distance = maxd, max_dist_index = k \<rparr>)"
    unfolding run_simulation_calculations_locals_def
    by (simp only: Let_def nc driving speed1 we md [unfolded self1_def] travelled
        Option.bind.bind_lunit prod.case self1_def)
  have "length tim = Suc 3600"
    by (simp add: tim_def)
  with run show ?thesis
    unfolding self_def raw_def
    by (simp add: distances_of_def speed_kmh_of_def dists_def maxd)
qed



lemma example_distance_head: "replicate 3600 (108 * (1 / 3600) :: real)
      = 108 * (1 / 3600) # replicate 3599 (108 * (1 / 3600))"
proof -
  have "(3600::nat) = Suc 3599"
    by simp
  then show ?thesis
    by (simp only: replicate_Suc)
qed

lemma example_distances_head: "map (np_clip 0 (3 / 100)) (cumsum (0 # replicate 3600 (108 * (1 / 3600))))
      = 0 # 3 / 100 # map (np_clip 0 (3 / 100)) (cumsum_from (3 / 100) (replicate 3599 (108 * (1 / 3600))))"
  unfolding example_distance_head by (simp add: cumsum_def np_clip_def)

lemmas run_evaluation =
  run_simulation_calculations_def run_simulation_calculations_locals_def
  example_collaborators_def example_simulation_def weather_and_energy_def motion_and_distance_def
  simulation_hours_by_second_def driving_allowed_def broadcast2_def mask_times_def astype_int_def
  calculate_closest_gis_indices_def calculate_closest_weather_indices_def average_distances_def
  cumsum_def py_get_def take_indices_def weather_coords_def get_weather_forecast_in_time_def
  example_forecast_row_def argmin_def np_roll_def calculate_energy_in_def BasicMotor_def
  snap_to_zero_def np_clip_def speed_kmh_of_def state_of_charge_of_def distances_of_def
  BasicBattery_update_array_def BasicLVS_update_def BasicLVS_get_consumed_energy_def Let_def
  power2_eq_square

section \<open>Curfew gating\<close>

text \<open>
  With one-second ticks and a duration in whole seconds, a run returns only when the
  duration is a whole number of hours: otherwise the tick grid and the hour array differ
  in length, and no speed array can be combined with both.
\<close>

lemma length_simulation_hours_by_second:
  "length (simulation_hours_by_second self)
   = 3600 * nat \<lceil>simulation_duration self / (60 * 60)\<rceil> + 1"
  by (simp add: simulation_hours_by_second_def Let_def length_concat_replicate_map)

lemma one_second_run_whole_hours:
  assumes run: "run_simulation_calculations c self raw_speed = Some (result, self')"
    and grid: "np_arange 0 (simulation_duration self + tick self) (tick self)
                 = Some (timestamps self)"
    and tick: "tick self = 1"
    and seconds: "simulation_duration self = real seconds"
  shows "\<exists>hours. seconds = 3600 * hours"
proof -
  define nc where "nc = map driving_allowed (simulation_hours_by_second self)"
  define n where "n = nat \<lceil>simulation_duration self / (60 * 60)\<rceil>"
  from run_SomeD [OF run] obtain l
    where "run_simulation_calculations_locals c self raw_speed = Some (result, self', l)"
    by blast
  from run_locals_SomeD [OF this, folded nc_def]
  obtain driving speed1 maxd tz lt delta solar wind elev cc lvs
  where
    d: "broadcast2 (\<lambda>v allowed. v \<noteq> 0 \<and> allowed) raw_speed nc = Some driving"
    and s1: "mask_times driving raw_speed = Some speed1"
    and w: "weather_and_energy c self speed1 nc
              = Some (maxd, tz, lt, delta, solar, wind, elev, cc, lvs)"
    by blast
  from weather_and_energy_metres [OF w] obtain metres where
    mt: "broadcast2 (*) (0 # np_diff (timestamps self)) speed1 = Some metres"
    by blast
  have nc_len: "length nc = 3600 * n + 1"
    by (simp add: nc_def n_def length_simulation_hours_by_second)
  from np_arange_SomeD(2) [OF grid] tick seconds
  have ts_len: "length (timestamps self) = seconds + 1"
    by simp
  show ?thesis
  proof (cases "n = 0")
    case True
    then have "real seconds / 3600 \<le> 0"
      using seconds by (simp add: n_def)
    then have "seconds = 0"
      by simp
    then show ?thesis
      by simp
  next
    case False
    with broadcast2_shape [OF d] nc_len have "length driving = 3600 * n + 1"
      by auto
    with broadcast2_shape [OF s1 [unfolded mask_times_def]] False
    have "length speed1 = 3600 * n + 1"
      by auto
    with broadcast2_shape [OF mt] False ts_len
    have "seconds + 1 = 3600 * n + 1 \<or> seconds = 0"
      by (auto simp: length_np_diff)
    moreover have "seconds \<noteq> 0"
      using False seconds by (auto simp: n_def)
    ultimately show ?thesis
      by auto
  qed
qed



section \<open>State of charge\<close>

text \<open>
  C2.  With the battery of the spec, every value of the state-of-charge series of a run
  lies in \<open>[0, 1]\<close>, and every value whose absolute value is below \<open>1e-3\<close> is exactly 0.
  It is the series the result reports (and from which \<open>final_soc\<close> is read) and the one
  that gates the speed: where it is 0 the reported speed is 0.
\<close>

theorem soc_bounds_and_snap:
  assumes run: "run_simulation_calculations
                  (c\<lparr>update_array := BasicBattery_update_array initial_charge capacity\<rparr>)
                  self raw_speed = Some (result, self')"
  shows "(\<forall>soc\<in>set (state_of_charge_of result).
            0 \<le> soc \<and> soc \<le> 1 \<and> (\<bar>soc\<bar> < 0.001 \<longrightarrow> soc = 0))
       \<and> (\<forall>i. i < length (speed_kmh_of result) \<and> i < length (state_of_charge_of result)
               \<and> state_of_charge_of result ! i = 0 \<longrightarrow> speed_kmh_of result ! i = 0)
       \<and> final_soc result \<in> (\<lambda>soc. soc * 100) ` set (state_of_charge_of result)"
proof -
  let ?c = "c\<lparr>update_array := BasicBattery_update_array initial_charge capacity\<rparr>"
  from run_SomeD [OF run] obtain l
    where "run_simulation_calculations_locals ?c self raw_speed = Some (result, self', l)"
    by blast
  from run_locals_SomeD [OF this]
  obtain speed1 maxd delta solar wind elev cc final dists soc fsoc tim k travelled nc self1 battery
  where
    m: "motion_and_distance ?c self1 nc speed1 delta maxd
         = Some (final, dists, soc, fsoc, tim, k, battery)"
    and r: "result = \<lparr> arrays = [final, dists, soc, delta, solar, wind, elev, cc],
             distance_travelled = travelled,
             time_taken = astype_int (sum_list tim),
             final_soc = fsoc \<rparr>"
    by blast
  from r have res: "speed_kmh_of result = final" "state_of_charge_of result = soc"
    "final_soc result = fsoc"
    by (simp_all add: speed_kmh_of_def state_of_charge_of_def)
  from motion_and_distance_soc [OF m] obtain battery_soc returned where
    b: "BasicBattery_update_array initial_charge capacity (basic_battery self1) (cumsum delta)
          = Some (battery_soc, returned)"
       "soc = map snap_to_zero battery_soc"
    by auto
  have raw: "0 \<le> x \<and> x \<le> 1" if "x \<in> set battery_soc" for x
    using that b(1) np_clip_bounds [of 0 1]
    by (auto simp: BasicBattery_update_array_def)
  have bounds: "0 \<le> s \<and> s \<le> 1 \<and> (\<bar>s\<bar> < 0.001 \<longrightarrow> s = 0)" if "s \<in> set soc" for s
  proof -
    from that b(2) obtain x where "x \<in> set battery_soc" "s = snap_to_zero x"
      by auto
    with raw [of x] snap_to_zero_bounds [of x] snap_to_zero_small [of x] show ?thesis
      by auto
  qed
  from motion_and_distance_gate [OF m] obtain moving where
    g: "broadcast2 (\<lambda>allowed s. allowed \<and> s \<noteq> 0) nc soc = Some moving"
       "mask_times moving speed1 = Some final"
    by blast
  have gate: "final ! i = 0" if "i < length final" "i < length soc" "soc ! i = 0" for i
    using gated_speed_zero_soc [OF g that] .
  from motion_and_distance_last_soc [OF m] have "fsoc \<in> (\<lambda>s. s * 100) ` set soc"
    by (auto dest: py_get_mem)
  with bounds gate res show ?thesis
    by auto
qed

theorem soc_bounds_and_snap_witness:
  "(\<exists>result self'.
      run_simulation_calculations
        (example_collaborators\<lparr>update_array := BasicBattery_update_array (7 / 2000) 1000000\<rparr>)
        (example_simulation 0 9) [50] = Some (result, self')
    \<and> state_of_charge_of result = [0]
    \<and> speed_kmh_of result = [0]
    \<and> final_soc result = 0
    \<and> list_all (\<lambda>soc. 0 \<le> soc \<and> soc \<le> 1) (state_of_charge_of result))
   \<and> (\<exists>result self'.
      run_simulation_calculations
        (example_collaborators\<lparr>update_array := BasicBattery_update_array (9 / 10) 1000000\<rparr>)
        (example_simulation 1 9) (replicate 3601 50) = Some (result, self')
    \<and> length (state_of_charge_of result) = 3601
    \<and> list_all (\<lambda>soc. 0 \<le> soc \<and> soc \<le> 1) (state_of_charge_of result))"
proof -
  obtain result self' where
    run: "run_simulation_calculations
        (example_collaborators\<lparr>update_array := BasicBattery_update_array (7 / 2000) 1000000\<rparr>)
        (example_simulation 0 9) [50] = Some (result, self')"
    and soc: "state_of_charge_of result = [0]"
    and len: "length (speed_kmh_of result) = 1"
    by (simp add: run_evaluation)
  from soc_bounds_and_snap [OF run] soc len
  have "list_all (\<lambda>soc. 0 \<le> soc \<and> soc \<le> 1) (state_of_charge_of result)"
    and "speed_kmh_of result ! 0 = 0"
    and "final_soc result = 0"
    by (simp_all add: list_all_iff)
  with run soc len have tick: "\<exists>result self'.
      run_simulation_calculations
        (example_collaborators\<lparr>update_array := BasicBattery_update_array (7 / 2000) 1000000\<rparr>)
        (example_simulation 0 9) [50] = Some (result, self')
    \<and> state_of_charge_of result = [0]
    \<and> speed_kmh_of result = [0]
    \<and> final_soc result = 0
    \<and> list_all (\<lambda>soc. 0 \<le> soc \<and> soc \<le> 1) (state_of_charge_of result)"
    by (cases "speed_kmh_of result") auto
  have "length (replicate 3601 (50::real)) = 3601"
    by simp
  from example_run_total_battery [OF this, of "9 / 10" 1000000 9] obtain result2 self2 locals2 where
    locals: "run_simulation_calculations_locals
        (example_collaborators\<lparr>update_array := BasicBattery_update_array (9 / 10) 1000000\<rparr>)
        (example_simulation 1 9) (replicate 3601 50) = Some (result2, self2, locals2)"
    and len2: "length (state_of_charge_of result2) = 3601"
    by blast
  from locals have run2: "run_simulation_calculations
        (example_collaborators\<lparr>update_array := BasicBattery_update_array (9 / 10) 1000000\<rparr>)
        (example_simulation 1 9) (replicate 3601 50) = Some (result2, self2)"
    by (simp only: run_simulation_calculations_def option.map prod.case)
  from soc_bounds_and_snap [OF run2]
  have "list_all (\<lambda>soc. 0 \<le> soc \<and> soc \<le> 1) (state_of_charge_of result2)"
    by (simp add: list_all_iff)
  with run2 len2 have hour: "\<exists>result self'.
      run_simulation_calculations
        (example_collaborators\<lparr>update_array := BasicBattery_update_array (9 / 10) 1000000\<rparr>)
        (example_simulation 1 9) (replicate 3601 50) = Some (result, self')
    \<and> length (state_of_charge_of result) = 3601
    \<and> list_all (\<lambda>soc. 0 \<le> soc \<and> soc \<le> 1) (state_of_charge_of result)"
    by blast
  from tick hour show ?thesis
    by (rule conjI)
qed

section \<open>Arrival\<close>

text \<open>
  C4.  The cumulative-distance series of a run never exceeds the route length (the sum of
  the path distances, in kilometres), nor does the distance travelled; and if \<open>k\<close> is the
  first tick at which the cumulative distance equals the route length, the time in
  motion, whose sum is the time taken, is 0 at every tick from \<open>k\<close> on, so at every tick
  strictly after \<open>k\<close>.
\<close>

theorem arrival_freeze:
  assumes run: "run_simulation_calculations_locals c self raw_speed = Some (result, self', locals)"
  shows "route_length self' = sum_list (path_distances self) / 1000
       \<and> (\<forall>d\<in>set (distances_of result). d \<le> route_length self')
       \<and> distance_travelled result \<le> route_length self'
       \<and> time_taken result = astype_int (sum_list (time_in_motion locals))
       \<and> (\<forall>k j. k < length (distances_of result)
               \<and> distances_of result ! k = route_length self'
               \<and> (\<forall>i<k. distances_of result ! i \<noteq> route_length self')
               \<and> k \<le> j \<and> j < length (time_in_motion locals)
             \<longrightarrow> time_in_motion locals ! j = 0)"
proof -
  from run_locals_SomeD [OF run]
  obtain speed1 maxd tz lt delta solar wind elev cc lvs final dists soc fsoc tim k battery
    travelled nc
  where
    w: "weather_and_energy c self speed1 nc
          = Some (maxd, tz, lt, delta, solar, wind, elev, cc, lvs)"
    and m: "motion_and_distance c (self\<lparr>route_length := maxd / 1000, basic_lvs := lvs\<rparr>) nc
              speed1 delta maxd
         = Some (final, dists, soc, fsoc, tim, k, battery)"
    and t: "py_get dists (- 1) = Some travelled"
    and r: "result = \<lparr> arrays = [final, dists, soc, delta, solar, wind, elev, cc],
             distance_travelled = travelled,
             time_taken = astype_int (sum_list tim),
             final_soc = fsoc \<rparr>"
    and s: "self' = self\<lparr>route_length := maxd / 1000, basic_lvs := lvs,
                         basic_battery := battery, time_zones := tz, local_times := lt\<rparr>"
    and l: "locals = \<lparr> not_charge = nc, time_in_motion = tim, max_route_distance = maxd,
                       max_dist_index = k \<rparr>"
    by blast
  from r have res: "distances_of result = dists" "distance_travelled result = travelled"
    "time_taken result = astype_int (sum_list tim)"
    by (simp_all add: distances_of_def)
  from s have len: "route_length self' = maxd / 1000"
    by simp
  from l have loc: "time_in_motion locals = tim"
    by simp
  from max_route_distance_sum [OF weather_and_energy_max [OF w]]
  have total: "maxd = sum_list (path_distances self)"
    by simp
  from motion_and_distance_freeze [OF m] obtain distance tim0 where
    d: "dists = map (np_clip 0 (maxd / 1000)) (cumsum distance)"
    and k: "k = (case first_index (\<lambda>d. d = maxd / 1000) dists of Some k \<Rightarrow> k
                 | None \<Rightarrow> length tim0)"
    and tim: "tim = take k tim0 @ map (\<lambda>_. 0) (drop k tim0)"
    by blast
  have clamp: "x \<le> maxd / 1000" if "x \<in> set dists" for x
    using that d np_clip_upper [of 0 "maxd / 1000"] by auto
  have arrived: "travelled \<le> maxd / 1000"
    using clamp py_get_mem [OF t] by simp
  have frozen: "tim ! j = 0"
    if "k' < length dists" "dists ! k' = maxd / 1000" "\<forall>i<k'. dists ! i \<noteq> maxd / 1000"
      "k' \<le> j" "j < length tim" for k' j
  proof -
    from that(1-3) have "first_index (\<lambda>d. d = maxd / 1000) dists = Some k'"
      by (simp add: first_index_Some_iff)
    with k have "k = k'"
      by simp
    moreover have "length tim = length tim0"
      using tim by simp
    ultimately show ?thesis
      using that(4,5) tim frozen_tail [of k j tim0] by simp
  qed
  show ?thesis
    using clamp arrived frozen total
    unfolding res len loc by blast
qed

theorem arrival_freeze_witness:
  "\<exists>result self' locals.
      run_simulation_calculations_locals example_collaborators (example_simulation 1 9)
        (replicate (Suc 3600) 108) = Some (result, self', locals)
    \<and> route_length self' = 3 / 100
    \<and> length (distances_of result) = Suc 3600
    \<and> distances_of result ! 0 = 0
    \<and> distances_of result ! 1 = 3 / 100
    \<and> length (time_in_motion locals) = Suc 3600
    \<and> time_in_motion locals ! 1 = 0
    \<and> time_in_motion locals ! 3600 = 0"
proof -
  have "(108::real) \<noteq> 0"
    by simp
  from example_run_driving [OF this] obtain result self' locals where
    run: "run_simulation_calculations_locals example_collaborators (example_simulation 1 9)
            (replicate (Suc 3600) 108) = Some (result, self', locals)"
    and d: "distances_of result
              = map (np_clip 0 (3 / 100)) (cumsum (0 # replicate 3600 (108 * (1 / 3600))))"
    and len: "length (time_in_motion locals) = Suc 3600"
    by blast
  have d0: "distances_of result ! 0 = 0" and d1: "distances_of result ! 1 = 3 / 100"
    unfolding d example_distances_head by simp_all
  have dlen: "length (distances_of result) = Suc 3600"
    unfolding d by (simp add: length_cumsum)
  note freeze = arrival_freeze [OF run]
  from freeze have route: "route_length self' = 3 / 100"
    by (simp add: example_simulation_def)
  from freeze have frozen: "\<forall>k j. k < length (distances_of result)
               \<and> distances_of result ! k = route_length self'
               \<and> (\<forall>i<k. distances_of result ! i \<noteq> route_length self')
               \<and> k \<le> j \<and> j < length (time_in_motion locals)
             \<longrightarrow> time_in_motion locals ! j = 0"
    by (elim conjE)
  have first: "\<forall>i<1. distances_of result ! i \<noteq> route_length self'"
    using d0 route by simp
  have k: "1 < length (distances_of result)" "distances_of result ! 1 = route_length self'"
    using dlen d1 route by simp_all
  have j1: "(1::nat) \<le> 1" "1 < length (time_in_motion locals)"
    and j2: "(1::nat) \<le> 3600" "3600 < length (time_in_motion locals)"
    using len by simp_all
  from frozen k first j1 have t1: "time_in_motion locals ! 1 = 0"
    by blast
  from frozen k first j2 have t2: "time_in_motion locals ! 3600 = 0"
    by blast
  from run route dlen d0 d1 len t1 t2 show ?thesis
    by blast
qed

section \<open>Runs and the state they share\<close>

text \<open>
  What a run reads of the five things it writes: the hour array and the first stage read
  none of the three attributes, and of the LVS object only the energy it holds after the
  update; the second stage reads the tick grid, the tick length and the series the
  battery returns.
\<close>

lemma simulation_hours_by_second_written [simp]:
  "simulation_hours_by_second
     (self\<lparr>route_length := a, basic_lvs := l, basic_battery := b, time_zones := tz,
           local_times := lt\<rparr>)
   = simulation_hours_by_second self"
  by (simp add: simulation_hours_by_second_def)

lemma weather_and_energy_written:
  assumes "get_consumed_energy c (lvs_update c l (tick self))
           = get_consumed_energy c (lvs_update c (basic_lvs self) (tick self))"
  shows "weather_and_energy c
           (self\<lparr>route_length := a, basic_lvs := l, basic_battery := b, time_zones := tz,
                 local_times := lt\<rparr>) speed nc
         = map_option (\<lambda>(maxd, tz, lt, delta, solar, wind, elev, cc, lvs).
               (maxd, tz, lt, delta, solar, wind, elev, cc, lvs_update c l (tick self)))
             (weather_and_energy c self speed nc)"
  unfolding weather_and_energy_def
  by (simp add: Let_def map_option_bind comp_def assms)

lemma motion_and_distance_written:
  assumes "timestamps s = timestamps s'" "tick s = tick s'"
    and "map_option fst (update_array c (basic_battery s) (cumsum delta))
         = map_option fst (update_array c (basic_battery s') (cumsum delta))"
  shows "map_option (\<lambda>(final, dists, soc, fsoc, tim, k, battery). (final, dists, soc, fsoc, tim, k))
           (motion_and_distance c s nc speed delta maxd)
       = map_option (\<lambda>(final, dists, soc, fsoc, tim, k, battery). (final, dists, soc, fsoc, tim, k))
           (motion_and_distance c s' nc speed delta maxd)"
proof (cases "update_array c (basic_battery s') (cumsum delta)")
  case None
  with assms(3) have "update_array c (basic_battery s) (cumsum delta) = None"
    by simp
  with None show ?thesis
    unfolding motion_and_distance_def by (simp add: Let_def)
next
  case (Some p)
  obtain series b' where p: "p = (series, b')"
    by (cases p)
  with Some assms(3) obtain b where
    "update_array c (basic_battery s) (cumsum delta) = Some (series, b)"
    by (cases "update_array c (basic_battery s) (cumsum delta)") auto
  with Some p show ?thesis
    unfolding motion_and_distance_def
    by (simp add: Let_def assms(1,2) map_option_bind comp_def cong: list.case_cong)
qed

lemma run_locals_transfer:
  assumes lvs: "\<And>l l' t. get_consumed_energy c (lvs_update c l t)
                   = get_consumed_energy c (lvs_update c l' t)"
    and battery: "\<And>b b' xs. map_option fst (update_array c b xs)
                   = map_option fst (update_array c b' xs)"
    and run: "run_simulation_calculations_locals c self v = Some (r, s', locals)"
  shows "\<exists>x'. run_simulation_calculations_locals c
           (self\<lparr>route_length := a, basic_lvs := l, basic_battery := b, time_zones := z,
                 local_times := lt\<rparr>) v
         = Some (r, x', locals)"
proof -
  define x where "x = self\<lparr>route_length := a, basic_lvs := l, basic_battery := b,
                           time_zones := z, local_times := lt\<rparr>"
  define nc where "nc = map driving_allowed (simulation_hours_by_second self)"
  have nc: "map driving_allowed (simulation_hours_by_second x) = nc"
    by (simp add: x_def nc_def)
  from run_locals_SomeD [OF run, folded nc_def]
  obtain driving speed1 maxd tz1 lt1 delta solar wind elev cc lvs1 final dists soc fsoc tim k
    battery1 travelled
  where
    d: "broadcast2 (\<lambda>v allowed. v \<noteq> 0 \<and> allowed) v nc = Some driving"
    and s1: "mask_times driving v = Some speed1"
    and w: "weather_and_energy c self speed1 nc
              = Some (maxd, tz1, lt1, delta, solar, wind, elev, cc, lvs1)"
    and m: "motion_and_distance c (self\<lparr>route_length := maxd / 1000, basic_lvs := lvs1\<rparr>) nc
              speed1 delta maxd
         = Some (final, dists, soc, fsoc, tim, k, battery1)"
    and t: "py_get dists (- 1) = Some travelled"
    and r: "r = \<lparr> arrays = [final, dists, soc, delta, solar, wind, elev, cc],
             distance_travelled = travelled,
             time_taken = astype_int (sum_list tim),
             final_soc = fsoc \<rparr>"
    and l: "locals = \<lparr> not_charge = nc, time_in_motion = tim, max_route_distance = maxd,
                       max_dist_index = k \<rparr>"
    by blast
  have wx: "weather_and_energy c x speed1 nc
      = Some (maxd, tz1, lt1, delta, solar, wind, elev, cc, lvs_update c l (tick self))"
    unfolding x_def using weather_and_energy_written [OF lvs, where self = self and l = l] w by simp
  define x1 where "x1 = x\<lparr>route_length := maxd / 1000,
                             basic_lvs := lvs_update c l (tick self)\<rparr>"
  have "map_option (\<lambda>(final, dists, soc, fsoc, tim, k, battery). (final, dists, soc, fsoc, tim, k))
           (motion_and_distance c x1 nc speed1 delta maxd)
       = map_option (\<lambda>(final, dists, soc, fsoc, tim, k, battery). (final, dists, soc, fsoc, tim, k))
           (motion_and_distance c (self\<lparr>route_length := maxd / 1000, basic_lvs := lvs1\<rparr>) nc
              speed1 delta maxd)"
    by (rule motion_and_distance_written) (simp_all add: x1_def x_def battery)
  with m obtain battery2 where
    mx: "motion_and_distance c x1 nc speed1 delta maxd
           = Some (final, dists, soc, fsoc, tim, k, battery2)"
    by (cases "motion_and_distance c x1 nc speed1 delta maxd") auto
  from run_locals_SomeI [where self = x and v = v and c = c, unfolded nc,
      OF d s1 wx mx [unfolded x1_def] t]
  show ?thesis
    unfolding x_def [symmetric] r l by blast
qed

lemma run_locals_written:
  assumes lvs: "\<And>l l' t. get_consumed_energy c (lvs_update c l t)
                   = get_consumed_energy c (lvs_update c l' t)"
    and battery: "\<And>b b' xs. map_option fst (update_array c b xs)
                   = map_option fst (update_array c b' xs)"
  shows "map_option (\<lambda>(r, s', locals). (r, locals))
           (run_simulation_calculations_locals c
              (self\<lparr>route_length := a, basic_lvs := l, basic_battery := b, time_zones := z,
                    local_times := lt\<rparr>) v)
       = map_option (\<lambda>(r, s', locals). (r, locals)) (run_simulation_calculations_locals c self v)"
proof -
  define x where "x = self\<lparr>route_length := a, basic_lvs := l, basic_battery := b,
                           time_zones := z, local_times := lt\<rparr>"
  have restore: "self = x\<lparr>route_length := route_length self, basic_lvs := basic_lvs self,
                        basic_battery := basic_battery self, time_zones := time_zones self,
                        local_times := local_times self\<rparr>"
    by (simp add: x_def)
  show ?thesis
  proof (cases "run_simulation_calculations_locals c self v")
    case (Some p)
    obtain r s' locals where "p = (r, s', locals)"
      by (cases p)
    with Some run_locals_transfer [OF lvs battery, where self = self and v = v and r = r
        and s' = s' and locals = locals and a = a and l = l and b = b and z = z and lt = lt]
    show ?thesis
      by auto
  next
    case None
    have "run_simulation_calculations_locals c x v = None"
    proof (cases "run_simulation_calculations_locals c x v")
      case (Some p)
      obtain r x' locals where "p = (r, x', locals)"
        by (cases p)
      with Some run_locals_transfer [OF lvs battery, where self = x and v = v and r = r
          and s' = x' and locals = locals and a = "route_length self" and l = "basic_lvs self"
          and b = "basic_battery self" and z = "time_zones self" and lt = "local_times self"]
        restore None
      show ?thesis
        by simp
    qed simp
    with None show ?thesis
      by (simp add: x_def)
  qed
qed

lemma run_written:
  assumes lvs: "\<And>l l' t. get_consumed_energy c (lvs_update c l t)
                   = get_consumed_energy c (lvs_update c l' t)"
    and battery: "\<And>b b' xs. map_option fst (update_array c b xs)
                   = map_option fst (update_array c b' xs)"
  shows "map_option fst
           (run_simulation_calculations c
              (self\<lparr>route_length := a, basic_lvs := l, basic_battery := b, time_zones := z,
                    local_times := lt\<rparr>) v)
       = map_option fst (run_simulation_calculations c self v)"
proof -
  have "map_option fst (run_simulation_calculations c s v)
      = map_option fst (map_option (\<lambda>(r, s', locals). (r, locals))
          (run_simulation_calculations_locals c s v))" for s :: "('a, 'b) simulation"
    by (simp add: run_simulation_calculations_def option.map_comp comp_def case_prod_beta)
  with run_locals_written [OF lvs battery, where self = self and a = a and l = l and b = b
      and z = z and lt = lt and v = v] show ?thesis
    by simp
qed

lemma run_writes:
  assumes "run_simulation_calculations c self v = Some (r, s')"
  shows "\<exists>a l b z lt. s' = self\<lparr>route_length := a, basic_lvs := l, basic_battery := b,
                                time_zones := z, local_times := lt\<rparr>"
proof -
  from run_SomeD [OF assms] obtain l
    where "run_simulation_calculations_locals c self v = Some (r, s', l)"
    by blast
  from run_locals_SomeD [OF this] show ?thesis
    by blast
qed

lemma run_again:
  assumes lvs: "\<And>l l' t. get_consumed_energy c (lvs_update c l t)
                   = get_consumed_energy c (lvs_update c l' t)"
    and battery: "\<And>b b' xs. map_option fst (update_array c b xs)
                   = map_option fst (update_array c b' xs)"
    and run: "run_simulation_calculations c self v = Some (r, s')"
  shows "\<exists>s''. run_simulation_calculations c s' v = Some (r, s'')"
    and "simulation_duration s' = simulation_duration self"
proof -
  from run_writes [OF run] obtain a l b z lt where
    s': "s' = self\<lparr>route_length := a, basic_lvs := l, basic_battery := b, time_zones := z,
                    local_times := lt\<rparr>"
    by blast
  from run_written [OF lvs battery, where self = self and a = a and l = l and b = b
      and z = z and lt = lt and v = v] run
  have "map_option fst (run_simulation_calculations c s' v) = Some r"
    unfolding s' by simp
  then show "\<exists>s''. run_simulation_calculations c s' v = Some (r, s'')"
    by (cases "run_simulation_calculations c s' v") auto
  show "simulation_duration s' = simulation_duration self"
    unfolding s' by simp
qed

text \<open>
  C9.  Take collaborators whose answers do not depend on the state earlier calls left in
  them: the energy the LVS holds after an update is the same whatever it held before, and
  the series the battery returns is the same whatever the battery was.  Then the result
  of a run does not depend on the five things a run writes (\<open>route_length\<close>, the LVS
  object, the battery object, \<open>time_zones\<close>, \<open>local_times\<close>); a second run on the
  object the first one left behind returns whenever the first does, with the same
  \<open>SimulationResult\<close>; a run changes nothing of the object but those five; and a second
  \<open>run_model\<close> on the object the first one left behind returns the same distance.
\<close>

theorem run_is_deterministic_transform:
  assumes lvs: "\<And>l l' t. get_consumed_energy c (lvs_update c l t)
                   = get_consumed_energy c (lvs_update c l' t)"
    and battery: "\<And>b b' xs. map_option fst (update_array c b xs)
                   = map_option fst (update_array c b' xs)"
  shows "map_option fst
           (run_simulation_calculations c
              (self\<lparr>route_length := a, basic_lvs := l, basic_battery := b, time_zones := z,
                    local_times := lt\<rparr>) raw_speed)
         = map_option fst (run_simulation_calculations c self raw_speed)
       \<and> (run_simulation_calculations c self raw_speed \<bind>
            (\<lambda>(result, self'). map_option fst (run_simulation_calculations c self' raw_speed)))
         = map_option fst (run_simulation_calculations c self raw_speed)
       \<and> map_option (\<lambda>(result, self').
              self'\<lparr>route_length := route_length self, basic_lvs := basic_lvs self,
                    basic_battery := basic_battery self, time_zones := time_zones self,
                    local_times := local_times self\<rparr>)
            (run_simulation_calculations c self raw_speed)
         = map_option (\<lambda>_. self) (run_simulation_calculations c self raw_speed)
       \<and> (run_model c self speed kwargs \<bind>
            (\<lambda>(distance, self'). map_option fst (run_model c self' speed kwargs)))
         = map_option fst (run_model c self speed kwargs)"
proof -
  note indep = run_written [OF lvs battery, where self = self and a = a and l = l and b = b
      and z = z and lt = lt and v = raw_speed]
  have again: "(run_simulation_calculations c self raw_speed \<bind>
        (\<lambda>(result, self'). map_option fst (run_simulation_calculations c self' raw_speed)))
     = map_option fst (run_simulation_calculations c self raw_speed)"
  proof (cases "run_simulation_calculations c self raw_speed")
    case None
    then show ?thesis by simp
  next
    case (Some p)
    obtain result self' where p: "p = (result, self')"
      by (cases p)
    from run_again(1) [OF lvs battery Some [unfolded p]] Some p show ?thesis
      by auto
  qed
  have kept: "map_option (\<lambda>(result, self').
              self'\<lparr>route_length := route_length self, basic_lvs := basic_lvs self,
                    basic_battery := basic_battery self, time_zones := time_zones self,
                    local_times := local_times self\<rparr>)
            (run_simulation_calculations c self raw_speed)
         = map_option (\<lambda>_. self) (run_simulation_calculations c self raw_speed)"
  proof (cases "run_simulation_calculations c self raw_speed")
    case None
    then show ?thesis by simp
  next
    case (Some p)
    obtain result self' where p: "p = (result, self')"
      by (cases p)
    from run_writes [OF Some [unfolded p]] Some p show ?thesis
      by auto
  qed
  define profile where "profile = (if kwargs \<noteq> [] then kwargs else speed)"
  have model: "run_model c s speed kwargs
      = reshape_and_repeat c profile (simulation_duration s) \<bind>
          (\<lambda>stretched. add_acceleration c (0 # stretched) 500 \<bind>
            (\<lambda>v. map_option (\<lambda>(result, self'). (distance_travelled result, self'))
                   (run_simulation_calculations c s v)))"
    for s :: "('a, 'b) simulation"
    unfolding run_model_def Let_def profile_def
    by (auto split: Option.bind_splits)
  have model_again: "(run_model c self speed kwargs \<bind>
            (\<lambda>(distance, self'). map_option fst (run_model c self' speed kwargs)))
         = map_option fst (run_model c self speed kwargs)"
  proof (cases "run_model c self speed kwargs")
    case None
    then show ?thesis by simp
  next
    case (Some p)
    obtain distance self' where p: "p = (distance, self')"
      by (cases p)
    from Some [unfolded p model] obtain stretched v result where
      st: "reshape_and_repeat c profile (simulation_duration self) = Some stretched"
      and v: "add_acceleration c (0 # stretched) 500 = Some v"
      and run: "run_simulation_calculations c self v = Some (result, self')"
      and dist: "distance = distance_travelled result"
      by (auto simp: bind_eq_Some_conv)
    from run_again [OF lvs battery run] obtain s'' where
      "run_simulation_calculations c self' v = Some (result, s'')"
      "simulation_duration self' = simulation_duration self"
      by blast
    then have "run_model c self' speed kwargs = Some (distance, s'')"
      unfolding model using st v dist by simp
    with Some p show ?thesis
      by simp
  qed
  from indep again kept model_again show ?thesis
    by blast
qed

theorem run_is_deterministic_transform_witness:
  "(\<forall>l l' t. get_consumed_energy example_stateful_collaborators
                (lvs_update example_stateful_collaborators l t)
              = get_consumed_energy example_stateful_collaborators
                  (lvs_update example_stateful_collaborators l' t))
   \<and> (\<forall>b b' xs. map_option fst (update_array example_stateful_collaborators b xs)
                  = map_option fst (update_array example_stateful_collaborators b' xs))
   \<and> (\<exists>result self' self''.
         run_simulation_calculations example_stateful_collaborators (example_simulation 0 9) [50]
           = Some (result, self')
       \<and> basic_lvs (example_simulation 0 9) = 0 \<and> basic_lvs self' = 2
       \<and> basic_battery (example_simulation 0 9) = []
       \<and> basic_battery self' = state_of_charge_of result
       \<and> length (state_of_charge_of result) = 1
       \<and> run_simulation_calculations example_stateful_collaborators self' [50]
           = Some (result, self''))"
proof -
  let ?c = example_stateful_collaborators
  have lvs: "get_consumed_energy ?c (lvs_update ?c l t) = get_consumed_energy ?c (lvs_update ?c l' t)"
    for l l' t
    by (simp add: example_stateful_collaborators_def example_collaborators_def BasicLVS_update_def)
  have battery: "map_option fst (update_array ?c b xs) = map_option fst (update_array ?c b' xs)"
    for b b' xs
    by (simp add: example_stateful_collaborators_def Let_def)
  obtain result self' where
    run: "run_simulation_calculations ?c (example_simulation 0 9) [50] = Some (result, self')"
    and lvs_after: "basic_lvs self' = 2"
    and battery_after: "basic_battery self' = [47849369715359 / 53327808000000]"
    and soc: "state_of_charge_of result = [47849369715359 / 53327808000000]"
    by (simp add: run_evaluation example_stateful_collaborators_def)
  from lvs_after battery_after soc
  have state: "basic_lvs self' = 2" "basic_battery self' = state_of_charge_of result"
    "length (state_of_charge_of result) = 1"
    by simp_all
  from run_is_deterministic_transform [OF lvs battery, where self = "example_simulation 0 9"
      and raw_speed = "[50]"] run
  have "map_option fst (run_simulation_calculations ?c self' [50]) = Some result"
    by simp
  then obtain self'' where "run_simulation_calculations ?c self' [50] = Some (result, self'')"
    by (cases "run_simulation_calculations ?c self' [50]") auto
  moreover have "basic_lvs (example_simulation 0 9) = 0" "basic_battery (example_simulation 0 9) = []"
    by (simp_all add: example_simulation_def)
  ultimately show ?thesis
    using lvs battery run state by blast
qed

text \<open>
  C9, the state a run leaves behind.  A run does write to the object the next run starts
  from: after one tick of the concrete race its route length, time zones and local times
  are no longer what they were before the run.
\<close>

theorem run_writes_shared_state:
  "map_option (\<lambda>(result, self'). (route_length self', time_zones self', local_times self'))
     (run_simulation_calculations example_collaborators (example_simulation 0 9) [50])
   = Some (3 / 100, [- 18000], [1627801200])
   \<and> (route_length (example_simulation 0 9), time_zones (example_simulation 0 9),
       local_times (example_simulation 0 9))
     = (0, [], [0])"
  by (simp add: run_evaluation)

end
